theory Spec2Isabelle
  imports Complex_Main "HOL-Library.AList" "HOL-Library.Sublist"
begin

section \<open>The script and its host\<close>

text \<open>
  \<^verbatim>\<open>build_and_export_duplex.py\<close> is a script for the scripting console of a 3D
  application. Every statement of it reads or mutates the host's scene graph through
  \<^verbatim>\<open>bpy\<close>, or the file system through \<^verbatim>\<open>os\<close>, \<^verbatim>\<open>open\<close> and \<^verbatim>\<open>zipfile\<close>.

  The embedding keeps the script's functions as they are written and makes the host an
  explicit state:
  \<^item> a data-block collection that the script addresses by name (\<^verbatim>\<open>bpy.data.collections\<close>,
    \<^verbatim>\<open>materials\<close>, \<^verbatim>\<open>worlds\<close>) is an association list from names to records;
  \<^item> a data-block the script only holds a reference to (objects, meshes, curves, cameras)
    lives in a list, and the reference is its index;
  \<^item> a function of the script is a program over the host state that returns either a
    value or the exception it raised, with the state reached at that moment.

  The host is taken to provide every attribute, socket and operator the script addresses,
  and to store names and numbers as they are given; Python floats are read as reals.
\<close>

subsection \<open>Exceptions and programs\<close>

datatype error =
    KeyError string
  | IndexError
  | ValueError
  | ReferenceError
  | RuntimeError string
  | AttributeError string
  | FileExistsError string
  | FileNotFoundError string
  | NotADirectoryError string
  | IsADirectoryError string
  | IndentationError nat string

type_synonym ('s, 'a) prog = "'s \<Rightarrow> (error + 'a) \<times> 's"

definition ret :: "'a \<Rightarrow> ('s, 'a) prog" where
  "ret a = (\<lambda>s. (Inr a, s))"

definition raise :: "error \<Rightarrow> ('s, 'a) prog" where
  "raise e = (\<lambda>s. (Inl e, s))"

definition bnd :: "('s, 'a) prog \<Rightarrow> ('a \<Rightarrow> ('s, 'b) prog) \<Rightarrow> ('s, 'b) prog" where
  "bnd m k = (\<lambda>s. case m s of (Inl e, s') \<Rightarrow> (Inl e, s') | (Inr a, s') \<Rightarrow> k a s')"

definition gets :: "('s \<Rightarrow> 'a) \<Rightarrow> ('s, 'a) prog" where
  "gets f = (\<lambda>s. (Inr (f s), s))"

definition modify :: "('s \<Rightarrow> 's) \<Rightarrow> ('s, unit) prog" where
  "modify f = (\<lambda>s. (Inr (), f s))"

subsection \<open>Data-blocks\<close>

type_synonym vec3 = "real \<times> real \<times> real"

text \<open>A material slot holds the name of a material, or nothing.\<close>

type_synonym slot = "string option"

record mesh =
  mesh_materials :: "slot list"

record bezier_point =
  co :: vec3
  handle_left_type :: string
  handle_right_type :: string

record spline =
  spline_type :: string
  bezier_points :: "bezier_point list"

record curve =
  curve_name :: string
  dimensions :: string
  splines :: "spline list"
  curve_materials :: "slot list"
  use_cyclic_u :: bool
  path_duration :: int

record camera =
  camera_name :: string
  lens :: real

text \<open>
  \<^verbatim>\<open>obj.data\<close> is \<^verbatim>\<open>None\<close> (an empty) or a reference to a mesh, a curve or a camera.
  Meshes and curves have a \<^verbatim>\<open>materials\<close> attribute, cameras have none.
\<close>

datatype data_ref = MeshData nat | CurveData nat | CameraData nat

record constraint =
  con_type :: string
  con_name :: string
  target :: "nat option"
  use_fixed_location :: bool
  forward_axis :: string
  up_axis :: string

record bobject =
  ob_name :: string
  data :: "data_ref option"
  location :: vec3
  constraints :: "constraint list"
  select :: bool

text \<open>
  A collection lists its child collections by name and its objects by reference.
  \<^verbatim>\<open>scene.collection\<close> is the scene's own root collection; it is not in
  \<^verbatim>\<open>bpy.data.collections\<close>.
\<close>

record collection =
  children :: "string list"
  col_objects :: "nat list"

datatype coll_ref = SceneCollection | DataCollection string

text \<open>
  A shader node tree. An input socket carries its \<^verbatim>\<open>default_value\<close> and the one link
  that may end in it; a link is stored at the socket it ends in, as the output socket
  (node, name) it starts from.
\<close>

datatype val = Unset | Num real | Rgba real real real real

record socket =
  default_value :: val
  link_from :: "(nat \<times> string) option"

record node =
  node_id :: nat
  bl_idname :: string
  inputs :: "(string \<times> socket) list"
  outputs :: "string list"
  attrs :: "(string \<times> val) list"

record node_tree =
  nodes :: "node list"

text \<open>Materials and worlds both have \<^verbatim>\<open>use_nodes\<close> and \<^verbatim>\<open>node_tree\<close>.\<close>

record nodal =
  use_nodes :: bool
  node_tree :: "node_tree option"

record marker =
  marker_name :: string
  frame :: int

text \<open>The settings of \<^verbatim>\<open>bpy.context.scene\<close> that the script writes.\<close>

record scene =
  fps :: int
  file_format :: string
  ffmpeg_format :: string
  ffmpeg_codec :: string
  constant_rate_factor :: string
  ffmpeg_preset :: string
  resolution_x :: int
  resolution_y :: int
  resolution_percentage :: int
  frame_start :: int
  frame_end :: int
  display_device :: string
  view_transform :: string
  look :: string
  engine :: string
  cycles_device :: string
  cycles_samples :: int
  use_denoising :: bool
  use_motion_blur :: bool
  motion_blur_shutter :: real
  filepath :: string
  frame_current :: int
  scene_world :: "string option"
  scene_camera :: "nat option"

text \<open>
  The file system: the directories and the regular files, each under its resolved path
  (the list of its components). A file holds text, an exported scene (the objects that
  were written) or an archive (entries of archive name and content, in order).
\<close>

datatype content = Text string | Fbx "bobject list" | Zip "(string \<times> content) list"

text \<open>An operator call whose effect on the scene the model does not look into.\<close>

datatype op_call = FollowPathAnimate string string | ExportFbx string bool

record host =
  scn :: scene
  scene_collection :: collection
  collections :: "(string \<times> collection) list"
  materials :: "(string \<times> nodal) list"
  worlds :: "(string \<times> nodal) list"
  meshes :: "mesh list"
  curves :: "curve list"
  cameras :: "camera list"
  objects :: "bobject list"
  active_object :: "nat option"
  timeline_markers :: "marker list"
  ops :: "op_call list"
  blend_dir :: string
  dirs :: "string list set"
  files :: "string list \<rightharpoonup> content"
  stdout :: "string list"

subsection \<open>References\<close>

text \<open>Reading through a reference to a data-block that is not there raises.\<close>

definition deref :: "('s \<Rightarrow> 'a list) \<Rightarrow> nat \<Rightarrow> ('s, 'a) prog" where
  "deref sel i = (\<lambda>s. if i < length (sel s) then (Inr (sel s ! i), s) else (Inl ReferenceError, s))"

text \<open>
  \<^verbatim>\<open>hasattr(d, "materials")\<close> and \<^verbatim>\<open>d.materials\<close> in one: \<open>None\<close> when the data-block
  has no such attribute, the slot list otherwise.
\<close>

fun materials_attr :: "data_ref \<Rightarrow> (host, slot list option) prog" where
  "materials_attr (MeshData i) = bnd (deref meshes i) (\<lambda>m. ret (Some (mesh_materials m)))"
| "materials_attr (CurveData i) = bnd (deref curves i) (\<lambda>c. ret (Some (curve_materials c)))"
| "materials_attr (CameraData i) = bnd (deref cameras i) (\<lambda>c. ret None)"

fun set_materials :: "data_ref \<Rightarrow> slot list \<Rightarrow> (host, unit) prog" where
  "set_materials (MeshData i) ms =
     modify (\<lambda>s. s\<lparr>meshes := (meshes s)[i := (meshes s ! i)\<lparr>mesh_materials := ms\<rparr>]\<rparr>)"
| "set_materials (CurveData i) ms =
     modify (\<lambda>s. s\<lparr>curves := (curves s)[i := (curves s ! i)\<lparr>curve_materials := ms\<rparr>]\<rparr>)"
| "set_materials (CameraData i) ms = raise (RuntimeError ''materials'')"

section \<open>assign_material\<close>

text \<open>
  \<^verbatim>\<open>
  def assign_material(obj, mat):
      if obj.data and hasattr(obj.data, "materials"):
          if len(obj.data.materials) == 0: obj.data.materials.append(mat)
          else: obj.data.materials[0] = mat
  \<close>
\<close>

definition assign_material :: "nat \<Rightarrow> string \<Rightarrow> (host, unit) prog" where
  "assign_material obj mat =
     bnd (deref objects obj) (\<lambda>ob.
       case data ob of
         None \<Rightarrow> ret ()
       | Some d \<Rightarrow>
           bnd (materials_attr d) (\<lambda>a.
             case a of
               None \<Rightarrow> ret ()
             | Some ms \<Rightarrow>
                 if length ms = 0 then set_materials d (ms @ [Some mat])
                 else set_materials d (ms[0 := Some mat])))"

section \<open>ensure_collection\<close>

text \<open>
  \<^verbatim>\<open>
  def ensure_collection(name, parent=None):
      col = bpy.data.collections.get(name)
      if not col:
          col = bpy.data.collections.new(name)
          if parent:
              parent.children.link(col)
          else:
              bpy.context.scene.collection.children.link(col)
      return col
  \<close>
  \<^verbatim>\<open>get\<close> answers with the first collection of that name or \<^verbatim>\<open>None\<close>; \<^verbatim>\<open>new\<close>
  adds an empty collection at the end (the script calls it for a free name only). A
  collection just created is in no \<^verbatim>\<open>children\<close> list, so \<^verbatim>\<open>link\<close> adds it.
\<close>

definition collections_get :: "string \<Rightarrow> (host, coll_ref option) prog" where
  "collections_get name =
     gets (\<lambda>s. case map_of (collections s) name of
                  None \<Rightarrow> None
                | Some c \<Rightarrow> Some (DataCollection name))"

definition empty_collection :: collection where
  "empty_collection = \<lparr>children = [], col_objects = []\<rparr>"

definition collections_new :: "string \<Rightarrow> (host, coll_ref) prog" where
  "collections_new name =
     bnd (modify (\<lambda>s. s\<lparr>collections := collections s @ [(name, empty_collection)]\<rparr>))
       (\<lambda>_. ret (DataCollection name))"

fun children_link :: "coll_ref \<Rightarrow> string \<Rightarrow> (host, unit) prog" where
  "children_link SceneCollection c =
     modify (\<lambda>s. s\<lparr>scene_collection :=
       (scene_collection s)\<lparr>children := children (scene_collection s) @ [c]\<rparr>\<rparr>)"
| "children_link (DataCollection p) c =
     bnd (gets (\<lambda>s. map_of (collections s) p)) (\<lambda>r.
       case r of
         None \<Rightarrow> raise ReferenceError
       | Some pc \<Rightarrow>
           modify (\<lambda>s. s\<lparr>collections :=
             AList.update p (pc\<lparr>children := children pc @ [c]\<rparr>) (collections s)\<rparr>))"

definition ensure_collection :: "string \<Rightarrow> coll_ref option \<Rightarrow> (host, coll_ref) prog" where
  "ensure_collection name parent =
     bnd (collections_get name) (\<lambda>col.
       case col of
         Some c \<Rightarrow> ret c
       | None \<Rightarrow>
           bnd (collections_new name) (\<lambda>c.
             bnd (case parent of
                    Some p \<Rightarrow> children_link p name
                  | None \<Rightarrow> children_link SceneCollection name)
               (\<lambda>_. ret c)))"

section \<open>Shader node trees\<close>

text \<open>
  What the host does for the calls the script makes on a node tree \<^verbatim>\<open>nt\<close>.

  \<^verbatim>\<open>nt.nodes.new(type)\<close> adds a node of a type the host knows, under an identity no node
  of the tree has. The table lists the five node types the script creates, with the
  sockets and attributes it addresses; their initial values are the host's business
  (\<open>Unset\<close>).
\<close>

definition unlinked :: socket where
  "unlinked = \<lparr>default_value = Unset, link_from = None\<rparr>"

definition node_type :: "string \<Rightarrow> node option" where
  "node_type ty =
     (if ty = ''ShaderNodeOutputMaterial'' then
        Some \<lparr>node_id = 0, bl_idname = ty,
              inputs = [(''Surface'', unlinked), (''Volume'', unlinked), (''Displacement'', unlinked)],
              outputs = [], attrs = []\<rparr>
      else if ty = ''ShaderNodeBsdfPrincipled'' then
        Some \<lparr>node_id = 0, bl_idname = ty,
              inputs = [(''Base Color'', unlinked), (''Metallic'', unlinked), (''Roughness'', unlinked)],
              outputs = [''BSDF''], attrs = []\<rparr>
      else if ty = ''ShaderNodeOutputWorld'' then
        Some \<lparr>node_id = 0, bl_idname = ty,
              inputs = [(''Surface'', unlinked), (''Volume'', unlinked)],
              outputs = [], attrs = []\<rparr>
      else if ty = ''ShaderNodeBackground'' then
        Some \<lparr>node_id = 0, bl_idname = ty,
              inputs = [(''Color'', unlinked), (''Strength'', unlinked)],
              outputs = [''Background''], attrs = []\<rparr>
      else if ty = ''ShaderNodeTexSky'' then
        Some \<lparr>node_id = 0, bl_idname = ty,
              inputs = [(''Vector'', unlinked)],
              outputs = [''Color''], attrs = [(''sun_elevation'', Unset)]\<rparr>
      else None)"

definition fresh_id :: "node list \<Rightarrow> nat" where
  "fresh_id ns = Suc (foldr max (map node_id ns) 0)"

definition nodes_new :: "string \<Rightarrow> (node_tree, nat) prog" where
  "nodes_new ty =
     (case node_type ty of
        None \<Rightarrow> raise (RuntimeError ty)
      | Some n \<Rightarrow>
          bnd (gets (\<lambda>t. fresh_id (nodes t))) (\<lambda>i.
          bnd (modify (\<lambda>t. t\<lparr>nodes := nodes t @ [n\<lparr>node_id := i\<rparr>]\<rparr>)) (\<lambda>_.
          ret i)))"

text \<open>\<^verbatim>\<open>nt.nodes.remove(n)\<close> deletes the node, with the links that end in it, and every
  link that starts from it.\<close>

definition unlink :: "nat \<Rightarrow> node \<Rightarrow> node" where
  "unlink i n =
     n\<lparr>inputs := map (\<lambda>(k, sk).
          (k, case link_from sk of
                None \<Rightarrow> sk
              | Some (j, out) \<Rightarrow> if j = i then sk\<lparr>link_from := None\<rparr> else sk))
        (inputs n)\<rparr>"

definition nodes_remove :: "nat \<Rightarrow> (node_tree, unit) prog" where
  "nodes_remove i =
     modify (\<lambda>t. t\<lparr>nodes := map (unlink i) (filter (\<lambda>n. node_id n \<noteq> i) (nodes t))\<rparr>)"

text \<open>
  A \<^verbatim>\<open>for\<close> loop over a host collection visits the elements the collection had when
  the loop started: the host's iterator steps to the next element before it hands out the
  current one, so removing the current element does not disturb it.
\<close>

primrec for_each :: "'a list \<Rightarrow> ('a \<Rightarrow> ('s, unit) prog) \<Rightarrow> ('s, unit) prog" where
  "for_each [] f = ret ()"
| "for_each (x # xs) f = bnd (f x) (\<lambda>_. for_each xs f)"

text \<open>\<^verbatim>\<open>n.inputs[k].default_value = v\<close>, and \<^verbatim>\<open>n.k = v\<close> for an attribute of the node.\<close>

definition put_node :: "node \<Rightarrow> (node_tree, unit) prog" where
  "put_node n = modify (\<lambda>t. t\<lparr>nodes := map (\<lambda>m. if node_id m = node_id n then n else m) (nodes t)\<rparr>)"

definition get_node :: "nat \<Rightarrow> (node_tree, node) prog" where
  "get_node i =
     bnd (gets (\<lambda>t. find (\<lambda>n. node_id n = i) (nodes t))) (\<lambda>r.
       case r of None \<Rightarrow> raise ReferenceError | Some n \<Rightarrow> ret n)"

definition set_input :: "nat \<Rightarrow> string \<Rightarrow> val \<Rightarrow> (node_tree, unit) prog" where
  "set_input i k v =
     bnd (get_node i) (\<lambda>n.
       case map_of (inputs n) k of
         None \<Rightarrow> raise (KeyError k)
       | Some sk \<Rightarrow> put_node (n\<lparr>inputs := AList.update k (sk\<lparr>default_value := v\<rparr>) (inputs n)\<rparr>))"

definition set_attr :: "nat \<Rightarrow> string \<Rightarrow> val \<Rightarrow> (node_tree, unit) prog" where
  "set_attr i k v =
     bnd (get_node i) (\<lambda>n.
       case map_of (attrs n) k of
         None \<Rightarrow> raise (AttributeError k)
       | Some _ \<Rightarrow> put_node (n\<lparr>attrs := AList.update k v (attrs n)\<rparr>))"

text \<open>
  \<^verbatim>\<open>nt.links.new(a.outputs[o], b.inputs[k])\<close>: both sockets are looked up first, then
  the link is stored at the input socket, in place of a link that ended there.
\<close>

definition links_new :: "nat \<times> string \<Rightarrow> nat \<times> string \<Rightarrow> (node_tree, unit) prog" where
  "links_new src dst =
     bnd (get_node (fst src)) (\<lambda>a.
       if snd src \<notin> set (outputs a) then raise (KeyError (snd src))
       else
         bnd (get_node (fst dst)) (\<lambda>b.
           case map_of (inputs b) (snd dst) of
             None \<Rightarrow> raise (KeyError (snd dst))
           | Some sk \<Rightarrow>
               put_node (b\<lparr>inputs := AList.update (snd dst) (sk\<lparr>link_from := Some src\<rparr>) (inputs b)\<rparr>)))"

text \<open>\<^verbatim>\<open>nt.links\<close>, read off the input sockets.\<close>

record link =
  from_node :: nat
  from_socket :: string
  to_node :: nat
  to_socket :: string

definition links_into :: "node \<Rightarrow> link list" where
  "links_into n =
     concat (map (\<lambda>(k, sk).
        case link_from sk of
          None \<Rightarrow> []
        | Some (i, out) \<Rightarrow> [\<lparr>from_node = i, from_socket = out, to_node = node_id n, to_socket = k\<rparr>])
       (inputs n))"

definition links :: "node_tree \<Rightarrow> link list" where
  "links t = concat (map links_into (nodes t))"

text \<open>
  A material or a world owns its tree. \<^verbatim>\<open>x.use_nodes = True\<close> gives a data-block
  without a tree the host's initial tree; \<^verbatim>\<open>nt = x.node_tree\<close> followed by calls on
  \<^verbatim>\<open>nt\<close> runs those calls on the owner's tree.
\<close>

datatype tree_owner = MaterialTree string | WorldTree string

fun get_nodal :: "tree_owner \<Rightarrow> (host, nodal) prog" where
  "get_nodal (MaterialTree n) =
     bnd (gets (\<lambda>s. map_of (materials s) n)) (\<lambda>r.
       case r of None \<Rightarrow> raise ReferenceError | Some b \<Rightarrow> ret b)"
| "get_nodal (WorldTree n) =
     bnd (gets (\<lambda>s. map_of (worlds s) n)) (\<lambda>r.
       case r of None \<Rightarrow> raise ReferenceError | Some b \<Rightarrow> ret b)"

fun put_nodal :: "tree_owner \<Rightarrow> nodal \<Rightarrow> (host, unit) prog" where
  "put_nodal (MaterialTree n) b = modify (\<lambda>s. s\<lparr>materials := AList.update n b (materials s)\<rparr>)"
| "put_nodal (WorldTree n) b = modify (\<lambda>s. s\<lparr>worlds := AList.update n b (worlds s)\<rparr>)"

definition initial_tree :: "tree_owner \<Rightarrow> node_tree" where
  "initial_tree owner =
     (case owner of
        MaterialTree _ \<Rightarrow>
          \<lparr>nodes =
            [\<lparr>node_id = 1, bl_idname = ''ShaderNodeBsdfPrincipled'',
              inputs = [(''Base Color'', unlinked), (''Metallic'', unlinked), (''Roughness'', unlinked)],
              outputs = [''BSDF''], attrs = []\<rparr>,
             \<lparr>node_id = 2, bl_idname = ''ShaderNodeOutputMaterial'',
              inputs = [(''Surface'', \<lparr>default_value = Unset, link_from = Some (1, ''BSDF'')\<rparr>),
                        (''Volume'', unlinked), (''Displacement'', unlinked)],
              outputs = [], attrs = []\<rparr>]\<rparr>
      | WorldTree _ \<Rightarrow>
          \<lparr>nodes =
            [\<lparr>node_id = 1, bl_idname = ''ShaderNodeBackground'',
              inputs = [(''Color'', unlinked), (''Strength'', unlinked)],
              outputs = [''Background''], attrs = []\<rparr>,
             \<lparr>node_id = 2, bl_idname = ''ShaderNodeOutputWorld'',
              inputs = [(''Surface'', \<lparr>default_value = Unset, link_from = Some (1, ''Background'')\<rparr>),
                        (''Volume'', unlinked)],
              outputs = [], attrs = []\<rparr>]\<rparr>)"

definition set_use_nodes :: "tree_owner \<Rightarrow> (host, unit) prog" where
  "set_use_nodes owner =
     bnd (get_nodal owner) (\<lambda>b.
       put_nodal owner
         (b\<lparr>use_nodes := True,
            node_tree := Some (case node_tree b of None \<Rightarrow> initial_tree owner | Some t \<Rightarrow> t)\<rparr>))"

definition on_tree :: "tree_owner \<Rightarrow> (node_tree, 'a) prog \<Rightarrow> (host, 'a) prog" where
  "on_tree owner m =
     bnd (get_nodal owner) (\<lambda>b.
       case node_tree b of
         None \<Rightarrow> raise (AttributeError ''nodes'')
       | Some t \<Rightarrow>
           (case m t of (r, t') \<Rightarrow>
              bnd (put_nodal owner (b\<lparr>node_tree := Some t'\<rparr>)) (\<lambda>_ s. (r, s))))"

section \<open>make_basic_material\<close>

text \<open>
  \<^verbatim>\<open>
  def make_basic_material(name, base_color=(0.8,0.8,0.8,1.0), metallic=0.0, roughness=0.5):
      mat = bpy.data.materials.get(name) or bpy.data.materials.new(name)
      mat.use_nodes = True; nt = mat.node_tree
      for n in nt.nodes: nt.nodes.remove(n)
      out = nt.nodes.new('ShaderNodeOutputMaterial')
      bsdf = nt.nodes.new('ShaderNodeBsdfPrincipled')
      bsdf.inputs['Base Color'].default_value = base_color
      bsdf.inputs['Metallic'].default_value = metallic
      bsdf.inputs['Roughness'].default_value = roughness
      nt.links.new(bsdf.outputs['BSDF'], out.inputs['Surface'])
      return mat
  \<close>
  A material is referred to by its name. \<^verbatim>\<open>materials.new\<close> adds a material without a
  node tree at the end (the script calls it for a free name only).
\<close>

definition materials_get :: "string \<Rightarrow> (host, string option) prog" where
  "materials_get name =
     gets (\<lambda>s. case map_of (materials s) name of None \<Rightarrow> None | Some b \<Rightarrow> Some name)"

definition materials_new :: "string \<Rightarrow> (host, string) prog" where
  "materials_new name =
     bnd (modify (\<lambda>s. s\<lparr>materials := materials s @ [(name, \<lparr>use_nodes = False, node_tree = None\<rparr>)]\<rparr>))
       (\<lambda>_. ret name)"

definition remove_all_nodes :: "(node_tree, unit) prog" where
  "remove_all_nodes = bnd (gets nodes) (\<lambda>ns. for_each ns (\<lambda>n. nodes_remove (node_id n)))"

text \<open>The statements of the function that work on \<^verbatim>\<open>nt\<close> (the loop to the link).\<close>

definition material_nodes :: "real \<times> real \<times> real \<times> real \<Rightarrow> real \<Rightarrow> real \<Rightarrow> (node_tree, unit) prog" where
  "material_nodes base_color metallic roughness =
     bnd remove_all_nodes (\<lambda>_.
     bnd (nodes_new ''ShaderNodeOutputMaterial'') (\<lambda>out.
     bnd (nodes_new ''ShaderNodeBsdfPrincipled'') (\<lambda>bsdf.
     bnd (set_input bsdf ''Base Color''
            (case base_color of (r, g, b, a) \<Rightarrow> Rgba r g b a)) (\<lambda>_.
     bnd (set_input bsdf ''Metallic'' (Num metallic)) (\<lambda>_.
     bnd (set_input bsdf ''Roughness'' (Num roughness)) (\<lambda>_.
     links_new (bsdf, ''BSDF'') (out, ''Surface'')))))))"

definition make_basic_material ::
  "string \<Rightarrow> real \<times> real \<times> real \<times> real \<Rightarrow> real \<Rightarrow> real \<Rightarrow> (host, string) prog" where
  "make_basic_material name base_color metallic roughness =
     bnd (bnd (materials_get name) (\<lambda>r. case r of Some m \<Rightarrow> ret m | None \<Rightarrow> materials_new name)) (\<lambda>mat.
     bnd (set_use_nodes (MaterialTree mat)) (\<lambda>_.
     bnd (on_tree (MaterialTree mat) (material_nodes base_color metallic roughness)) (\<lambda>_.
     ret mat)))"

text \<open>The tree of a material output fed by a principled shader with the given values.\<close>

abbreviation basic_tree :: "real \<times> real \<times> real \<times> real \<Rightarrow> real \<Rightarrow> real \<Rightarrow> node_tree" where
  "basic_tree c m r \<equiv> \<lparr>nodes =
     [\<lparr>node_id = 1, bl_idname = ''ShaderNodeOutputMaterial'',
       inputs = [(''Surface'', \<lparr>default_value = Unset, link_from = Some (2, ''BSDF'')\<rparr>),
                 (''Volume'', unlinked), (''Displacement'', unlinked)],
       outputs = [], attrs = []\<rparr>,
      \<lparr>node_id = 2, bl_idname = ''ShaderNodeBsdfPrincipled'',
       inputs = [(''Base Color'', \<lparr>default_value = (case c of (r, g, b, a) \<Rightarrow> Rgba r g b a), link_from = None\<rparr>),
                 (''Metallic'', \<lparr>default_value = Num m, link_from = None\<rparr>),
                 (''Roughness'', \<lparr>default_value = Num r, link_from = None\<rparr>)],
       outputs = [''BSDF''], attrs = []\<rparr>]\<rparr>"

section \<open>add_bezier_path\<close>

text \<open>
  \<^verbatim>\<open>
  def add_bezier_path(name, points, col=None):
      curve_data = bpy.data.curves.new(name=name, type='CURVE')
      curve_data.dimensions = '3D'
      spline = curve_data.splines.new('BEZIER')
      spline.bezier_points.add(len(points)-1)
      for i, (x,y,z) in enumerate(points):
          bp = spline.bezier_points[i]
          bp.co = (x, y, z)
          bp.handle_left_type = 'AUTO'; bp.handle_right_type = 'AUTO'
      curve_obj = bpy.data.objects.new(name, curve_data)
      (col or bpy.context.scene.collection).objects.link(curve_obj)
      return curve_obj
  \<close>
  The host's part: a new curve has no spline; a new Bezier spline has one control point;
  \<^verbatim>\<open>bezier_points.add(k)\<close> appends \<open>k\<close> control points and refuses a negative \<open>k\<close>;
  an object just created is in no collection, so \<^verbatim>\<open>objects.link\<close> adds it.
\<close>

definition default_point :: bezier_point where
  "default_point = \<lparr>co = (0, 0, 0), handle_left_type = ''FREE'', handle_right_type = ''FREE''\<rparr>"

definition curves_new :: "string \<Rightarrow> (host, nat) prog" where
  "curves_new name =
     bnd (gets (\<lambda>s. length (curves s))) (\<lambda>i.
     bnd (modify (\<lambda>s. s\<lparr>curves := curves s @
            [\<lparr>curve_name = name, dimensions = ''2D'', splines = [], curve_materials = [],
              use_cyclic_u = False, path_duration = 100\<rparr>]\<rparr>)) (\<lambda>_.
     ret i))"

definition update_curve :: "nat \<Rightarrow> (curve \<Rightarrow> curve) \<Rightarrow> (host, unit) prog" where
  "update_curve i f =
     bnd (deref curves i) (\<lambda>c. modify (\<lambda>s. s\<lparr>curves := (curves s)[i := f c]\<rparr>))"

text \<open>A spline is referred to by its curve and its position among the curve's splines.\<close>

definition splines_new :: "nat \<Rightarrow> string \<Rightarrow> (host, nat \<times> nat) prog" where
  "splines_new i ty =
     bnd (deref curves i) (\<lambda>c.
     bnd (modify (\<lambda>s. s\<lparr>curves := (curves s)
            [i := c\<lparr>splines := splines c @ [\<lparr>spline_type = ty, bezier_points = [default_point]\<rparr>]\<rparr>]\<rparr>)) (\<lambda>_.
     ret (i, length (splines c))))"

text \<open>Calls on \<^verbatim>\<open>spline.bezier_points\<close> run on the control points of that spline.\<close>

definition on_points :: "nat \<times> nat \<Rightarrow> (bezier_point list, 'a) prog \<Rightarrow> (host, 'a) prog" where
  "on_points sp m =
     bnd (deref curves (fst sp)) (\<lambda>c.
       if snd sp < length (splines c) then
         (case m (bezier_points (splines c ! snd sp)) of (r, ps) \<Rightarrow>
            bnd (modify (\<lambda>s. s\<lparr>curves := (curves s)
                   [fst sp := c\<lparr>splines := (splines c)
                      [snd sp := (splines c ! snd sp)\<lparr>bezier_points := ps\<rparr>]\<rparr>]\<rparr>)) (\<lambda>_ s. (r, s)))
       else raise ReferenceError)"

definition points_add :: "int \<Rightarrow> (bezier_point list, unit) prog" where
  "points_add count =
     (if count < 0 then raise ValueError
      else modify (\<lambda>ps. ps @ replicate (nat count) default_point))"

text \<open>The body of the loop: \<^verbatim>\<open>bezier_points[i]\<close> raises when \<open>i\<close> is out of range.\<close>

definition set_point :: "nat \<Rightarrow> vec3 \<Rightarrow> (bezier_point list, unit) prog" where
  "set_point i p =
     bnd (gets (\<lambda>ps. i < length ps)) (\<lambda>ok.
       if ok then
         modify (\<lambda>ps. ps[i := (ps ! i)\<lparr>co := p, handle_left_type := ''AUTO'', handle_right_type := ''AUTO''\<rparr>])
       else raise IndexError)"

definition objects_new :: "string \<Rightarrow> data_ref option \<Rightarrow> (host, nat) prog" where
  "objects_new name d =
     bnd (gets (\<lambda>s. length (objects s))) (\<lambda>i.
     bnd (modify (\<lambda>s. s\<lparr>objects := objects s @
            [\<lparr>ob_name = name, data = d, location = (0, 0, 0), constraints = [], select = False\<rparr>]\<rparr>)) (\<lambda>_.
     ret i))"

fun objects_link :: "coll_ref \<Rightarrow> nat \<Rightarrow> (host, unit) prog" where
  "objects_link SceneCollection ob =
     modify (\<lambda>s. s\<lparr>scene_collection :=
       (scene_collection s)\<lparr>col_objects := col_objects (scene_collection s) @ [ob]\<rparr>\<rparr>)"
| "objects_link (DataCollection c) ob =
     bnd (gets (\<lambda>s. map_of (collections s) c)) (\<lambda>r.
       case r of
         None \<Rightarrow> raise ReferenceError
       | Some cc \<Rightarrow>
           modify (\<lambda>s. s\<lparr>collections :=
             AList.update c (cc\<lparr>col_objects := col_objects cc @ [ob]\<rparr>) (collections s)\<rparr>))"

text \<open>\<^verbatim>\<open>col or bpy.context.scene.collection\<close>.\<close>

definition col_or_scene :: "coll_ref option \<Rightarrow> coll_ref" where
  "col_or_scene col = (case col of None \<Rightarrow> SceneCollection | Some c \<Rightarrow> c)"

definition add_bezier_path :: "string \<Rightarrow> vec3 list \<Rightarrow> coll_ref option \<Rightarrow> (host, nat) prog" where
  "add_bezier_path name points col =
     bnd (curves_new name) (\<lambda>curve_data.
     bnd (update_curve curve_data (\<lambda>c. c\<lparr>dimensions := ''3D''\<rparr>)) (\<lambda>_.
     bnd (splines_new curve_data ''BEZIER'') (\<lambda>spline.
     bnd (on_points spline
            (bnd (points_add (int (length points) - 1)) (\<lambda>_.
             for_each (enumerate 0 points) (\<lambda>(i, p). set_point i p)))) (\<lambda>_.
     bnd (objects_new name (Some (CurveData curve_data))) (\<lambda>curve_obj.
     bnd (objects_link (col_or_scene col) curve_obj) (\<lambda>_.
     ret curve_obj))))))"

section \<open>Cameras, constraints and markers\<close>

text \<open>
  \<^verbatim>\<open>
  def set_active_camera(cam_obj): bpy.context.scene.camera = cam_obj

  def add_camera(name, loc=(0,0,1.7), lens=24, col=None):
      cam_data = bpy.data.cameras.new(name); cam_data.lens = lens
      cam_obj = bpy.data.objects.new(name, cam_data); cam_obj.location = loc
      (col or bpy.context.scene.collection).objects.link(cam_obj)
      return cam_obj

  def follow_path(cam, curve, frames):
      con = cam.constraints.new(type='FOLLOW_PATH'); con.target = curve
      con.use_fixed_location = True; con.forward_axis = 'FORWARD_Y'; con.up_axis = 'UP_Z'
      curve.data.path_duration = frames
      bpy.context.view_layer.objects.active = cam
      bpy.ops.object.constraint_followpath_path_animate(constraint=con.name, owner='OBJECT')
  \<close>
  \<^verbatim>\<open>add_camera\<close> and \<^verbatim>\<open>follow_path\<close> are local functions of \<^verbatim>\<open>build_scene\<close>.
  The operator that animates the path is recorded as a call.
\<close>

definition set_active_camera :: "nat \<Rightarrow> (host, unit) prog" where
  "set_active_camera cam_obj = modify (\<lambda>s. s\<lparr>scn := (scn s)\<lparr>scene_camera := Some cam_obj\<rparr>\<rparr>)"

definition cameras_new :: "string \<Rightarrow> (host, nat) prog" where
  "cameras_new name =
     bnd (gets (\<lambda>s. length (cameras s))) (\<lambda>i.
     bnd (modify (\<lambda>s. s\<lparr>cameras := cameras s @ [\<lparr>camera_name = name, lens = 50\<rparr>]\<rparr>)) (\<lambda>_.
     ret i))"

definition update_camera :: "nat \<Rightarrow> (camera \<Rightarrow> camera) \<Rightarrow> (host, unit) prog" where
  "update_camera i f =
     bnd (deref cameras i) (\<lambda>c. modify (\<lambda>s. s\<lparr>cameras := (cameras s)[i := f c]\<rparr>))"

definition update_object :: "nat \<Rightarrow> (bobject \<Rightarrow> bobject) \<Rightarrow> (host, unit) prog" where
  "update_object i f =
     bnd (deref objects i) (\<lambda>ob. modify (\<lambda>s. s\<lparr>objects := (objects s)[i := f ob]\<rparr>))"

definition add_camera :: "string \<Rightarrow> vec3 \<Rightarrow> real \<Rightarrow> coll_ref option \<Rightarrow> (host, nat) prog" where
  "add_camera name loc lens' col =
     bnd (cameras_new name) (\<lambda>cam_data.
     bnd (update_camera cam_data (\<lambda>c. c\<lparr>lens := lens'\<rparr>)) (\<lambda>_.
     bnd (objects_new name (Some (CameraData cam_data))) (\<lambda>cam_obj.
     bnd (update_object cam_obj (\<lambda>ob. ob\<lparr>location := loc\<rparr>)) (\<lambda>_.
     bnd (objects_link (col_or_scene col) cam_obj) (\<lambda>_.
     ret cam_obj)))))"

text \<open>\<^verbatim>\<open>ob.data\<close> where a curve is expected: \<^verbatim>\<open>ob.data.path_duration\<close>, \<^verbatim>\<open>ob.data.use_cyclic_u\<close>.\<close>

definition curve_of :: "nat \<Rightarrow> (host, nat) prog" where
  "curve_of ob =
     bnd (deref objects ob) (\<lambda>b.
       case data b of
         Some (CurveData i) \<Rightarrow> ret i
       | _ \<Rightarrow> raise (AttributeError ''data''))"

definition constraints_new :: "nat \<Rightarrow> string \<Rightarrow> (host, nat \<times> nat) prog" where
  "constraints_new ob ty =
     bnd (deref objects ob) (\<lambda>b.
     bnd (modify (\<lambda>s. s\<lparr>objects := (objects s)
            [ob := b\<lparr>constraints := constraints b @
               [\<lparr>con_type = ty, con_name = ''Follow Path'', target = None,
                 use_fixed_location = False, forward_axis = ''FORWARD_Y'', up_axis = ''UP_Z''\<rparr>]\<rparr>]\<rparr>)) (\<lambda>_.
     ret (ob, length (constraints b))))"

definition update_constraint :: "nat \<times> nat \<Rightarrow> (constraint \<Rightarrow> constraint) \<Rightarrow> (host, unit) prog" where
  "update_constraint con f =
     bnd (deref objects (fst con)) (\<lambda>b.
       if snd con < length (constraints b) then
         modify (\<lambda>s. s\<lparr>objects := (objects s)
           [fst con := b\<lparr>constraints := (constraints b)[snd con := f (constraints b ! snd con)]\<rparr>]\<rparr>)
       else raise ReferenceError)"

definition constraint_name :: "nat \<times> nat \<Rightarrow> (host, string) prog" where
  "constraint_name con =
     bnd (deref objects (fst con)) (\<lambda>b.
       if snd con < length (constraints b) then ret (con_name (constraints b ! snd con))
       else raise ReferenceError)"

definition follow_path :: "nat \<Rightarrow> nat \<Rightarrow> int \<Rightarrow> (host, unit) prog" where
  "follow_path cam curve' frames =
     bnd (constraints_new cam ''FOLLOW_PATH'') (\<lambda>con.
     bnd (update_constraint con (\<lambda>c. c\<lparr>target := Some curve'\<rparr>)) (\<lambda>_.
     bnd (update_constraint con (\<lambda>c. c\<lparr>use_fixed_location := True\<rparr>)) (\<lambda>_.
     bnd (update_constraint con (\<lambda>c. c\<lparr>forward_axis := ''FORWARD_Y''\<rparr>)) (\<lambda>_.
     bnd (update_constraint con (\<lambda>c. c\<lparr>up_axis := ''UP_Z''\<rparr>)) (\<lambda>_.
     bnd (curve_of curve') (\<lambda>d.
     bnd (update_curve d (\<lambda>c. c\<lparr>path_duration := frames\<rparr>)) (\<lambda>_.
     bnd (modify (\<lambda>s. s\<lparr>active_object := Some cam\<rparr>)) (\<lambda>_.
     bnd (constraint_name con) (\<lambda>n.
     modify (\<lambda>s. s\<lparr>ops := ops s @ [FollowPathAnimate n ''OBJECT'']\<rparr>))))))))))"

text \<open>
  \<^verbatim>\<open>bpy.ops.marker.add()\<close> puts a marker at the current frame, under a name of the
  host's; \<^verbatim>\<open>timeline_markers[-1]\<close> is the last marker and raises when there is none.
\<close>

definition marker_add :: "(host, unit) prog" where
  "marker_add =
     modify (\<lambda>s. s\<lparr>timeline_markers := timeline_markers s @
       [\<lparr>marker_name = ''F'', frame = frame_current (scn s)\<rparr>]\<rparr>)"

definition update_last_marker :: "(marker \<Rightarrow> marker) \<Rightarrow> (host, unit) prog" where
  "update_last_marker f =
     bnd (gets timeline_markers) (\<lambda>ms.
       if ms = [] then raise IndexError
       else modify (\<lambda>s. s\<lparr>timeline_markers := butlast ms @ [f (last ms)]\<rparr>))"

definition print :: "string \<Rightarrow> (host, unit) prog" where
  "print line = modify (\<lambda>s. s\<lparr>stdout := stdout s @ [line]\<rparr>)"

text \<open>The check mark that starts the script's messages, in UTF-8.\<close>

definition check_mark :: string where
  "check_mark = [CHR 0xE2, CHR 0x9C, CHR 0x94]"

section \<open>build_scene\<close>

text \<open>
  Lines 104 to 123 of \<^verbatim>\<open>build_scene\<close>, render, colour management, frame range and output:
  \<^verbatim>\<open>
  scene = bpy.context.scene
  scene.render.fps = 30
  scene.render.image_settings.file_format = 'FFMPEG'
  scene.render.ffmpeg.format = 'MPEG4'
  scene.render.ffmpeg.codec = 'H264'
  scene.render.ffmpeg.constant_rate_factor = 'HIGH'
  scene.render.ffmpeg.ffmpeg_preset = 'GOOD'
  scene.render.resolution_x = 1920; scene.render.resolution_y = 1080
  scene.render.resolution_percentage = 100
  scene.frame_start = 0; scene.frame_end = 600
  scene.display_settings.display_device = 'sRGB'
  scene.view_settings.view_transform = 'Filmic'
  scene.view_settings.look = 'Medium High Contrast'
  scene.render.engine = 'CYCLES'
  scene.cycles.device = 'CPU'
  scene.cycles.samples = 256
  scene.cycles.use_denoising = True
  scene.render.use_motion_blur = True
  scene.render.motion_blur_shutter = 0.5
  scene.render.filepath = "//renders/walkthrough_preview.mp4"
  \<close>
\<close>

definition build_scene_render :: "(host, unit) prog" where
  "build_scene_render =
     modify (\<lambda>s. s\<lparr>scn := (scn s)
       \<lparr>fps := 30,
        file_format := ''FFMPEG'',
        ffmpeg_format := ''MPEG4'',
        ffmpeg_codec := ''H264'',
        constant_rate_factor := ''HIGH'',
        ffmpeg_preset := ''GOOD'',
        resolution_x := 1920, resolution_y := 1080,
        resolution_percentage := 100,
        frame_start := 0, frame_end := 600,
        display_device := ''sRGB'',
        view_transform := ''Filmic'',
        look := ''Medium High Contrast'',
        engine := ''CYCLES'',
        cycles_device := ''CPU'',
        cycles_samples := 256,
        use_denoising := True,
        use_motion_blur := True,
        motion_blur_shutter := 0.5,
        filepath := ''//renders/walkthrough_preview.mp4''\<rparr>\<rparr>)"

text \<open>
  Lines 124 to 141, the collections and the materials, are calls of
  \<^verbatim>\<open>ensure_collection\<close> and \<^verbatim>\<open>make_basic_material\<close>; lines 143 to 145 are comments.

  Lines 148 to 155, the world:
  \<^verbatim>\<open>
  world = bpy.data.worlds.get("World") or bpy.data.worlds.new("World")
  bpy.context.scene.world = world; world.use_nodes = True; nt = world.node_tree
  for n in nt.nodes: nt.nodes.remove(n)
  out = nt.nodes.new('ShaderNodeOutputWorld')
  bg  = nt.nodes.new('ShaderNodeBackground')
  sky = nt.nodes.new('ShaderNodeTexSky')
  sky.sun_elevation = math.radians(45); bg.inputs['Strength'].default_value = 1.2
  nt.links.new(sky.outputs['Color'], bg.inputs['Color']); nt.links.new(bg.outputs['Background'], out.inputs['Surface'])
  \<close>
\<close>

definition radians :: "real \<Rightarrow> real" where
  "radians x = x * pi / 180"

definition worlds_get :: "string \<Rightarrow> (host, string option) prog" where
  "worlds_get name =
     gets (\<lambda>s. case map_of (worlds s) name of None \<Rightarrow> None | Some b \<Rightarrow> Some name)"

definition worlds_new :: "string \<Rightarrow> (host, string) prog" where
  "worlds_new name =
     bnd (modify (\<lambda>s. s\<lparr>worlds := worlds s @ [(name, \<lparr>use_nodes = False, node_tree = None\<rparr>)]\<rparr>))
       (\<lambda>_. ret name)"

definition world_nodes :: "(node_tree, unit) prog" where
  "world_nodes =
     bnd remove_all_nodes (\<lambda>_.
     bnd (nodes_new ''ShaderNodeOutputWorld'') (\<lambda>out.
     bnd (nodes_new ''ShaderNodeBackground'') (\<lambda>bg.
     bnd (nodes_new ''ShaderNodeTexSky'') (\<lambda>sky.
     bnd (set_attr sky ''sun_elevation'' (Num (radians 45))) (\<lambda>_.
     bnd (set_input bg ''Strength'' (Num 1.2)) (\<lambda>_.
     bnd (links_new (sky, ''Color'') (bg, ''Color'')) (\<lambda>_.
     links_new (bg, ''Background'') (out, ''Surface''))))))))"

definition build_scene_world :: "(host, unit) prog" where
  "build_scene_world =
     bnd (bnd (worlds_get ''World'') (\<lambda>r. case r of Some w \<Rightarrow> ret w | None \<Rightarrow> worlds_new ''World'')) (\<lambda>world.
     bnd (modify (\<lambda>s. s\<lparr>scn := (scn s)\<lparr>scene_world := Some world\<rparr>\<rparr>)) (\<lambda>_.
     bnd (set_use_nodes (WorldTree world)) (\<lambda>_.
     on_tree (WorldTree world) world_nodes)))"

text \<open>
  The module's constants and the two point lists of lines 158 to 177:
  \<^verbatim>\<open>
  FT_TO_M = 0.3048
  PLOT_W_FT = 50.0
  PLOT_D_FT = 40.0
  PLOT_W = PLOT_W_FT * FT_TO_M
  PLOT_D = PLOT_D_FT * FT_TO_M
  FLOOR_HEIGHT = 3.2
  SLAB_THICK = 0.20

  walk_pts = [
      (PLOT_W*0.1, 0.8, 1.5),
      (PLOT_W*0.2, PLOT_D*0.2, 1.6),
      (PLOT_W*0.4, PLOT_D*0.6, FLOOR_HEIGHT + 1.6),
      (PLOT_W*0.6, PLOT_D*0.5, FLOOR_HEIGHT + 1.8),
      (PLOT_W*0.45, PLOT_D*0.4, 2*(FLOOR_HEIGHT + SLAB_THICK) + 1.8),
      (PLOT_W*0.55, PLOT_D*0.3, 2*(FLOOR_HEIGHT + SLAB_THICK) + 1.8),
      (PLOT_W + 5.0, PLOT_D*0.5, FLOOR_HEIGHT + 2.0)
  ]
  center = Vector((PLOT_W/2, PLOT_D/2, FLOOR_HEIGHT + 2.0))
  rad = max(PLOT_W, PLOT_D) * 0.9
  aero_pts = [
      (center.x + rad, center.y, center.z),
      (center.x, center.y + rad, center.z),
      (center.x - rad, center.y, center.z),
      (center.x, center.y - rad, center.z),
      (center.x + rad, center.y, center.z),
  ]
  \<close>
\<close>

definition FT_TO_M :: real where "FT_TO_M = 0.3048"
definition PLOT_W_FT :: real where "PLOT_W_FT = 50.0"
definition PLOT_D_FT :: real where "PLOT_D_FT = 40.0"
definition PLOT_W :: real where "PLOT_W = PLOT_W_FT * FT_TO_M"
definition PLOT_D :: real where "PLOT_D = PLOT_D_FT * FT_TO_M"
definition FLOOR_HEIGHT :: real where "FLOOR_HEIGHT = 3.2"
definition SLAB_THICK :: real where "SLAB_THICK = 0.20"

definition walk_pts :: "vec3 list" where
  "walk_pts =
     [(PLOT_W * 0.1, 0.8, 1.5),
      (PLOT_W * 0.2, PLOT_D * 0.2, 1.6),
      (PLOT_W * 0.4, PLOT_D * 0.6, FLOOR_HEIGHT + 1.6),
      (PLOT_W * 0.6, PLOT_D * 0.5, FLOOR_HEIGHT + 1.8),
      (PLOT_W * 0.45, PLOT_D * 0.4, 2 * (FLOOR_HEIGHT + SLAB_THICK) + 1.8),
      (PLOT_W * 0.55, PLOT_D * 0.3, 2 * (FLOOR_HEIGHT + SLAB_THICK) + 1.8),
      (PLOT_W + 5.0, PLOT_D * 0.5, FLOOR_HEIGHT + 2.0)]"

definition center :: vec3 where
  "center = (PLOT_W / 2, PLOT_D / 2, FLOOR_HEIGHT + 2.0)"

definition rad :: real where
  "rad = max PLOT_W PLOT_D * 0.9"

definition aero_pts :: "vec3 list" where
  "aero_pts =
     (case center of (x, y, z) \<Rightarrow>
       [(x + rad, y, z),
        (x, y + rad, z),
        (x - rad, y, z),
        (x, y - rad, z),
        (x + rad, y, z)])"

text \<open>
  The function, lines 102 to 206. Line 124 (\<^verbatim>\<open>root = scene.collection\<close>) is read here as
  the statement of the body that the lines after it continue; how the file lays that line
  out is the subject of the section on the layout.
  \<^verbatim>\<open>
  root = scene.collection
  col_ground   = ensure_collection("Ground_Floor", root)
  col_first    = ensure_collection("First_Floor", root)
  col_second   = ensure_collection("Second_Floor", root)
  col_facade   = ensure_collection("Exterior_Facade", root)
  col_furn     = ensure_collection("Furniture", root)
  col_land     = ensure_collection("Landscape", root)
  col_cam_walk = ensure_collection("Cameras_Walkthrough", root)
  col_cam_aero = ensure_collection("Cameras_Aerial", root)
  col_misc     = ensure_collection("Renders", root)
  mat_wall   = make_basic_material("Wall_Paint", (0.92,0.92,0.92,1), 0.0, 0.6)
  mat_glass  = make_basic_material("Glass_Simple", (0.8,0.9,1.0,0.05), 0.0, 0.05)
  mat_stone  = make_basic_material("Stone_Cladding", (0.5,0.5,0.5,1), 0.0, 0.9)
  mat_wood   = make_basic_material("Wood", (0.5,0.35,0.2,1), 0.0, 0.5)
  mat_grass  = make_basic_material("Grass", (0.3,0.5,0.3,1), 0.0, 0.9)
  mat_asph   = make_basic_material("Driveway", (0.1,0.1,0.1,1), 0.0, 0.8)
  (the world)
  walk_curve = add_bezier_path("Walkthrough_Path", walk_pts, col_cam_walk)
  aero_curve = add_bezier_path("Aerial_Spin_Path", aero_pts, col_cam_aero)
  aero_curve.data.use_cyclic_u = True
  cam_walk = add_camera("Camera_Walkthrough", loc=(PLOT_W*0.1, 0.8, 1.6), lens=18, col=col_cam_walk)
  cam_aero = add_camera("Camera_Aerial", loc=(center.x + rad, center.y, center.z), lens=35, col=col_cam_aero)
  follow_path(cam_walk, walk_curve, 600)
  follow_path(cam_aero, aero_curve, 450)
  set_active_camera(cam_walk)
  bpy.ops.marker.add(); bpy.context.scene.timeline_markers[-1].name = "Walkthrough"; bpy.context.scene.timeline_markers[-1].frame = 0
  bpy.ops.marker.add(); bpy.context.scene.timeline_markers[-1].name = "Aerial Spin"; bpy.context.scene.timeline_markers[-1].frame = 0
  print("(check mark) Scene built.")
  \<close>
\<close>

text \<open>
  The embedding follows the function's comment headings: one program for each run of
  statements, and \<^verbatim>\<open>build_scene\<close> as their sequence. A block hands on the variables
  that later blocks read: the two camera collections, the two curves.
\<close>

definition build_scene_collections :: "(host, coll_ref \<times> coll_ref) prog" where
  "build_scene_collections =
     bnd (ret SceneCollection) (\<lambda>root.
     bnd (ensure_collection ''Ground_Floor'' (Some root)) (\<lambda>col_ground.
     bnd (ensure_collection ''First_Floor'' (Some root)) (\<lambda>col_first.
     bnd (ensure_collection ''Second_Floor'' (Some root)) (\<lambda>col_second.
     bnd (ensure_collection ''Exterior_Facade'' (Some root)) (\<lambda>col_facade.
     bnd (ensure_collection ''Furniture'' (Some root)) (\<lambda>col_furn.
     bnd (ensure_collection ''Landscape'' (Some root)) (\<lambda>col_land.
     bnd (ensure_collection ''Cameras_Walkthrough'' (Some root)) (\<lambda>col_cam_walk.
     bnd (ensure_collection ''Cameras_Aerial'' (Some root)) (\<lambda>col_cam_aero.
     bnd (ensure_collection ''Renders'' (Some root)) (\<lambda>col_misc.
     ret (col_cam_walk, col_cam_aero)))))))))))"

definition build_scene_materials :: "(host, unit) prog" where
  "build_scene_materials =
     bnd (make_basic_material ''Wall_Paint'' (0.92, 0.92, 0.92, 1) 0.0 0.6) (\<lambda>mat_wall.
     bnd (make_basic_material ''Glass_Simple'' (0.8, 0.9, 1.0, 0.05) 0.0 0.05) (\<lambda>mat_glass.
     bnd (make_basic_material ''Stone_Cladding'' (0.5, 0.5, 0.5, 1) 0.0 0.9) (\<lambda>mat_stone.
     bnd (make_basic_material ''Wood'' (0.5, 0.35, 0.2, 1) 0.0 0.5) (\<lambda>mat_wood.
     bnd (make_basic_material ''Grass'' (0.3, 0.5, 0.3, 1) 0.0 0.9) (\<lambda>mat_grass.
     bnd (make_basic_material ''Driveway'' (0.1, 0.1, 0.1, 1) 0.0 0.8) (\<lambda>mat_asph.
     ret ()))))))"

definition build_scene_paths :: "coll_ref \<Rightarrow> coll_ref \<Rightarrow> (host, nat \<times> nat) prog" where
  "build_scene_paths col_cam_walk col_cam_aero =
     bnd (add_bezier_path ''Walkthrough_Path'' walk_pts (Some col_cam_walk)) (\<lambda>walk_curve.
     bnd (add_bezier_path ''Aerial_Spin_Path'' aero_pts (Some col_cam_aero)) (\<lambda>aero_curve.
     bnd (bnd (curve_of aero_curve) (\<lambda>d. update_curve d (\<lambda>c. c\<lparr>use_cyclic_u := True\<rparr>))) (\<lambda>_.
     ret (walk_curve, aero_curve))))"

definition build_scene_cameras :: "coll_ref \<Rightarrow> coll_ref \<Rightarrow> nat \<Rightarrow> nat \<Rightarrow> (host, unit) prog" where
  "build_scene_cameras col_cam_walk col_cam_aero walk_curve aero_curve =
     bnd (add_camera ''Camera_Walkthrough'' (PLOT_W * 0.1, 0.8, 1.6) 18 (Some col_cam_walk)) (\<lambda>cam_walk.
     bnd (add_camera ''Camera_Aerial'' (case center of (x, y, z) \<Rightarrow> (x + rad, y, z)) 35
            (Some col_cam_aero)) (\<lambda>cam_aero.
     bnd (follow_path cam_walk walk_curve 600) (\<lambda>_.
     bnd (follow_path cam_aero aero_curve 450) (\<lambda>_.
     set_active_camera cam_walk))))"

definition build_scene_markers :: "(host, unit) prog" where
  "build_scene_markers =
     bnd marker_add (\<lambda>_.
     bnd (update_last_marker (\<lambda>m. m\<lparr>marker_name := ''Walkthrough''\<rparr>)) (\<lambda>_.
     bnd (update_last_marker (\<lambda>m. m\<lparr>frame := 0\<rparr>)) (\<lambda>_.
     bnd marker_add (\<lambda>_.
     bnd (update_last_marker (\<lambda>m. m\<lparr>marker_name := ''Aerial Spin''\<rparr>)) (\<lambda>_.
     update_last_marker (\<lambda>m. m\<lparr>frame := 0\<rparr>))))))"

definition build_scene :: "(host, unit) prog" where
  "build_scene =
     bnd build_scene_render (\<lambda>_.
     bnd build_scene_collections (\<lambda>(col_cam_walk, col_cam_aero).
     bnd build_scene_materials (\<lambda>_.
     bnd build_scene_world (\<lambda>_.
     bnd (build_scene_paths col_cam_walk col_cam_aero) (\<lambda>(walk_curve, aero_curve).
     bnd (build_scene_cameras col_cam_walk col_cam_aero walk_curve aero_curve) (\<lambda>_.
     bnd build_scene_markers (\<lambda>_.
     print (check_mark @ '' Scene built.''))))))))"

section \<open>Paths and files\<close>

text \<open>
  \<^verbatim>\<open>os.path.join\<close> and \<^verbatim>\<open>os.path.basename\<close> for two arguments, as \<^verbatim>\<open>posixpath\<close>
  has them, and \<^verbatim>\<open>bpy.path.abspath\<close>, which puts the directory of the open file in
  place of a leading \<^verbatim>\<open>//\<close>.
\<close>

definition join :: "string \<Rightarrow> string \<Rightarrow> string" where
  "join a b =
     (if b \<noteq> [] \<and> hd b = CHR ''/'' then b
      else if a = [] \<or> last a = CHR ''/'' then a @ b
      else a @ ''/'' @ b)"

definition basename :: "string \<Rightarrow> string" where
  "basename p = rev (takeWhile (\<lambda>c. c \<noteq> CHR ''/'') (rev p))"

definition abspath :: "string \<Rightarrow> (host, string) prog" where
  "abspath p =
     bnd (gets blend_dir) (\<lambda>d.
       if take 2 p = ''//'' then ret (join d (drop 2 p)) else ret p)"

text \<open>
  The file system finds a file by the components of its path: the pieces between
  slashes, empty pieces dropped. (Paths are read from the root; \<^verbatim>\<open>.\<close>, \<^verbatim>\<open>..\<close> and
  links are not interpreted.)
\<close>

primrec split_slash :: "string \<Rightarrow> string list" where
  "split_slash [] = [[]]"
| "split_slash (c # cs) =
     (if c = CHR ''/'' then [] # split_slash cs
      else (case split_slash cs of [] \<Rightarrow> [[c]] | x # xs \<Rightarrow> (c # x) # xs))"

definition resolve :: "string \<Rightarrow> string list" where
  "resolve p = filter (\<lambda>x. x \<noteq> []) (split_slash p)"

definition is_dir :: "host \<Rightarrow> string list \<Rightarrow> bool" where
  "is_dir s q = (q = [] \<or> q \<in> dirs s)"

text \<open>A regular file lies on the way to \<open>q\<close>: one of its proper ancestors is a file.\<close>

definition file_above :: "host \<Rightarrow> string list \<Rightarrow> bool" where
  "file_above s q = list_ex (\<lambda>r. files s r \<noteq> None) (butlast (prefixes q))"

definition isdir :: "string \<Rightarrow> (host, bool) prog" where
  "isdir p = gets (\<lambda>s. is_dir s (resolve p))"

text \<open>
  \<^verbatim>\<open>os.makedirs(p, exist_ok)\<close> creates the directory and its missing ancestors. It raises
  when a regular file is in the way, also with \<^verbatim>\<open>exist_ok=True\<close>, which only accepts a
  directory that is there already.
\<close>

definition makedirs :: "string \<Rightarrow> bool \<Rightarrow> (host, unit) prog" where
  "makedirs p exist_ok =
     bnd (gets (\<lambda>s. s)) (\<lambda>s.
       if file_above s (resolve p) then raise (NotADirectoryError p)
       else if files s (resolve p) \<noteq> None then raise (FileExistsError p)
       else if is_dir s (resolve p) then (if exist_ok then ret () else raise (FileExistsError p))
       else modify (\<lambda>s. s\<lparr>dirs := dirs s \<union> set (prefixes (resolve p))\<rparr>))"

text \<open>
  Opening a file for writing creates it empty or empties it; the directory it goes into
  must exist, and its own path must not be a directory.
\<close>

definition write_file :: "string \<Rightarrow> content \<Rightarrow> (host, unit) prog" where
  "write_file p c =
     bnd (gets (\<lambda>s. s)) (\<lambda>s.
       if is_dir s (resolve p) then raise (IsADirectoryError p)
       else if file_above s (resolve p) then raise (NotADirectoryError p)
       else if \<not> is_dir s (butlast (resolve p)) then raise (FileNotFoundError p)
       else modify (\<lambda>s. s\<lparr>files := (files s)(resolve p \<mapsto> c)\<rparr>))"

definition read_file :: "string \<Rightarrow> (host, content) prog" where
  "read_file p =
     bnd (gets (\<lambda>s. s)) (\<lambda>s.
       case files s (resolve p) of
         Some c \<Rightarrow> ret c
       | None \<Rightarrow> if is_dir s (resolve p) then raise (IsADirectoryError p)
                 else raise (FileNotFoundError p))"

text \<open>\<^verbatim>\<open>f.write(text)\<close> on the file opened at \<open>p\<close>, and \<^verbatim>\<open>z.write(src, arcname)\<close> on the archive opened at \<open>p\<close>.\<close>

definition file_write :: "string \<Rightarrow> string \<Rightarrow> (host, unit) prog" where
  "file_write p txt =
     bnd (read_file p) (\<lambda>c.
       case c of
         Text t \<Rightarrow> modify (\<lambda>s. s\<lparr>files := (files s)(resolve p \<mapsto> Text (t @ txt))\<rparr>)
       | _ \<Rightarrow> raise ValueError)"

definition zip_write :: "string \<Rightarrow> string \<Rightarrow> string \<Rightarrow> (host, unit) prog" where
  "zip_write p src arcname =
     bnd (read_file src) (\<lambda>c.
     bnd (read_file p) (\<lambda>z.
       case z of
         Zip es \<Rightarrow> modify (\<lambda>s. s\<lparr>files := (files s)(resolve p \<mapsto> Zip (es @ [(arcname, c)]))\<rparr>)
       | _ \<Rightarrow> raise ValueError))"

section \<open>export_fbx_and_zip\<close>

text \<open>
  \<^verbatim>\<open>
  def export_fbx_and_zip():
      EXPORT_DIR = bpy.path.abspath("//exports/")
      FULL_FBX = os.path.join(EXPORT_DIR, "Duplex_House.fbx")
      LITE_FBX = os.path.join(EXPORT_DIR, "Duplex_House_Lite.fbx")
      ZIP_PATH = os.path.join(EXPORT_DIR, "Duplex_House_FBX.zip")
      README_PATH = os.path.join(EXPORT_DIR, "README_Import.txt")

      def ensure_dir(p):
          if not os.path.isdir(p): os.makedirs(p, exist_ok=True)

      ensure_dir(EXPORT_DIR)

      bpy.ops.object.select_all(action='SELECT')
      bpy.ops.export_scene.fbx(filepath=FULL_FBX, use_selection=True)

      with open(README_PATH, "w") as f:
          f.write("Duplex House FBX Export\n=======================\n")
          f.write("Files:\n- Duplex_House.fbx (FULL)\n- Duplex_House_Lite.fbx (LITE)\n")

      with zipfile.ZipFile(ZIP_PATH, "w", compression=zipfile.ZIP_DEFLATED) as z:
          z.write(FULL_FBX, arcname=os.path.basename(FULL_FBX))
          z.write(README_PATH, arcname=os.path.basename(README_PATH))

      print("(check mark) Export complete:", ZIP_PATH)
  \<close>
  The export operator is recorded as a call and writes, to the path it is given, the
  objects it exports: the selected ones with \<^verbatim>\<open>use_selection\<close>, all of them without.
\<close>

definition ensure_dir :: "string \<Rightarrow> (host, unit) prog" where
  "ensure_dir p = bnd (isdir p) (\<lambda>d. if \<not> d then makedirs p True else ret ())"

definition select_all :: "string \<Rightarrow> (host, unit) prog" where
  "select_all action =
     (if action = ''SELECT'' then
        modify (\<lambda>s. s\<lparr>objects := map (\<lambda>ob. ob\<lparr>select := True\<rparr>) (objects s)\<rparr>)
      else if action = ''DESELECT'' then
        modify (\<lambda>s. s\<lparr>objects := map (\<lambda>ob. ob\<lparr>select := False\<rparr>) (objects s)\<rparr>)
      else if action = ''INVERT'' then
        modify (\<lambda>s. s\<lparr>objects := map (\<lambda>ob. ob\<lparr>select := \<not> select ob\<rparr>) (objects s)\<rparr>)
      else if action = ''TOGGLE'' then
        modify (\<lambda>s. s\<lparr>objects := map (\<lambda>ob. ob\<lparr>select := \<not> list_ex select (objects s)\<rparr>) (objects s)\<rparr>)
      else raise ValueError)"

definition export_scene_fbx :: "string \<Rightarrow> bool \<Rightarrow> (host, unit) prog" where
  "export_scene_fbx filepath' use_selection =
     bnd (modify (\<lambda>s. s\<lparr>ops := ops s @ [ExportFbx filepath' use_selection]\<rparr>)) (\<lambda>_.
     bnd (gets (\<lambda>s. if use_selection then filter select (objects s) else objects s)) (\<lambda>obs.
     write_file filepath' (Fbx obs)))"

definition newline :: string where
  "newline = [CHR 0x0A]"

text \<open>The two \<^verbatim>\<open>with\<close> blocks, and the two texts that the first one writes.\<close>

definition readme_title :: string where
  "readme_title = ''Duplex House FBX Export'' @ newline @ ''======================='' @ newline"

definition readme_files :: string where
  "readme_files =
     ''Files:'' @ newline @ ''- Duplex_House.fbx (FULL)'' @ newline @
     ''- Duplex_House_Lite.fbx (LITE)'' @ newline"

definition write_readme :: "string \<Rightarrow> (host, unit) prog" where
  "write_readme README_PATH =
     bnd (write_file README_PATH (Text [])) (\<lambda>_.
     bnd (file_write README_PATH readme_title) (\<lambda>_.
     file_write README_PATH readme_files))"

definition write_archive :: "string \<Rightarrow> string \<Rightarrow> string \<Rightarrow> (host, unit) prog" where
  "write_archive ZIP_PATH FULL_FBX README_PATH =
     bnd (write_file ZIP_PATH (Zip [])) (\<lambda>_.
     bnd (zip_write ZIP_PATH FULL_FBX (basename FULL_FBX)) (\<lambda>_.
     zip_write ZIP_PATH README_PATH (basename README_PATH)))"

definition export_fbx_and_zip :: "(host, unit) prog" where
  "export_fbx_and_zip =
     bnd (abspath ''//exports/'') (\<lambda>EXPORT_DIR.
     bnd (ret (join EXPORT_DIR ''Duplex_House.fbx'')) (\<lambda>FULL_FBX.
     bnd (ret (join EXPORT_DIR ''Duplex_House_Lite.fbx'')) (\<lambda>LITE_FBX.
     bnd (ret (join EXPORT_DIR ''Duplex_House_FBX.zip'')) (\<lambda>ZIP_PATH.
     bnd (ret (join EXPORT_DIR ''README_Import.txt'')) (\<lambda>README_PATH.
     bnd (ensure_dir EXPORT_DIR) (\<lambda>_.
     bnd (select_all ''SELECT'') (\<lambda>_.
     bnd (export_scene_fbx FULL_FBX True) (\<lambda>_.
     bnd (write_readme README_PATH) (\<lambda>_.
     bnd (write_archive ZIP_PATH FULL_FBX README_PATH) (\<lambda>_.
     print (check_mark @ '' Export complete: '' @ ZIP_PATH)))))))))))"

section \<open>The script's last lines\<close>

text \<open>
  \<^verbatim>\<open>
  if __name__ == "__main__":
      build_scene()
      export_fbx_and_zip()
      print("(check mark) Done: scene built and FBX exports zipped. Save your .blend to keep changes.")
  \<close>
\<close>

definition main :: "(host, unit) prog" where
  "main =
     bnd build_scene (\<lambda>_.
     bnd export_fbx_and_zip (\<lambda>_.
     print (check_mark @ '' Done: scene built and FBX exports zipped. Save your .blend to keep changes.'')))"

section \<open>The layout of the file\<close>

text \<open>
  The interpreter compiles a file before it runs any of it, and reads the block structure
  off the indentation. Lines 1 to 126 of the file, as they are written (a quote that ends a line is spelt
  \<open>CHR 0x27\<close>):
\<close>

definition source_lines :: "(nat \<times> string) list" where
  \<open>source_lines =
     [
      (1, ''# build_and_export_duplex.py''),
      (2, ''# -------------------------------------------------------------''),
      (3, ''# Run inside Blender (Scripting tab): Open -> Run Script''),
      (4, ''#''),
      (5, ''# One-click script:''),
      (6, ''#  1) Builds the duplex starter scene (50x40 ft, 4BHK duplex).''),
      (7, ''#  2) Sets up cameras, HDRI daylight, motion blur, render presets.''),
      (8, ''#  3) Exports:''),
      (9, ''#       - Duplex_House.fbx  (FULL)''),
      (10, ''#       - Duplex_House_Lite.fbx (LITE)''),
      (11, ''#       - README_Import.txt''),
      (12, ''#     and zips them to //exports/Duplex_House_FBX.zip''),
      (13, ''# -------------------------------------------------------------''),
      (14, ''''),
      (15, ''import bpy, os, zipfile, math''),
      (16, ''from mathutils import Vector''),
      (17, ''''),
      (18, ''# =========================''),
      (19, ''# Section A: BUILD SCENE''),
      (20, ''# =========================''),
      (21, ''''),
      (22, ''FT_TO_M = 0.3048''),
      (23, ''PLOT_W_FT = 50.0''),
      (24, ''PLOT_D_FT = 40.0''),
      (25, ''PLOT_W = PLOT_W_FT * FT_TO_M    # 15.24 m''),
      (26, ''PLOT_D = PLOT_D_FT * FT_TO_M    # 12.19 m''),
      (27, ''''),
      (28, ''FLOOR_HEIGHT = 3.2  # meters''),
      (29, ''SLAB_THICK = 0.20''),
      (30, ''''),
      (31, ''def ensure_collection(name, parent=None):''),
      (32, ''    col = bpy.data.collections.get(name)''),
      (33, ''    if not col:''),
      (34, ''        col = bpy.data.collections.new(name)''),
      (35, ''        if parent:''),
      (36, ''            parent.children.link(col)''),
      (37, ''        else:''),
      (38, ''            bpy.context.scene.collection.children.link(col)''),
      (39, ''    return col''),
      (40, ''''),
      (41, ''def new_cube(name, size=(1,1,1), loc=(0,0,0), col=None):''),
      (42, ''    bpy.ops.mesh.primitive_cube_add(location=loc)''),
      (43, ''    obj = bpy.context.active_object''),
      (44, ''    obj.name = name''),
      (45, ''    obj.scale = (size[0]/2, size[1]/2, size[2]/2)''),
      (46, ''    if col and obj.name not in col.objects:''),
      (47, ''        col.objects.link(obj); bpy.context.scene.collection.objects.unlink(obj)''),
      (48, ''    return obj''),
      (49, ''''),
      (50, ''def new_plane(name, size=(1,1), loc=(0,0,0), col=None):''),
      (51, ''    bpy.ops.mesh.primitive_plane_add(location=loc)''),
      (52, ''    obj = bpy.context.active_object''),
      (53, ''    obj.name = name''),
      (54, ''    obj.scale = (size[0]/2, size[1]/2, 1)''),
      (55, ''    if col and obj.name not in col.objects:''),
      (56, ''        col.objects.link(obj); bpy.context.scene.collection.objects.unlink(obj)''),
      (57, ''    return obj''),
      (58, ''''),
      (59, ''def add_bezier_path(name, points, col=None):''),
      (60, ''    curve_data = bpy.data.curves.new(name=name, type='CURVE')''),
      (61, ''    curve_data.dimensions = '3D'' @ [CHR 0x27]),
      (62, ''    spline = curve_data.splines.new('BEZIER')''),
      (63, ''    spline.bezier_points.add(len(points)-1)''),
      (64, ''    for i, (x,y,z) in enumerate(points):''),
      (65, ''        bp = spline.bezier_points[i]''),
      (66, ''        bp.co = (x, y, z)''),
      (67, ''        bp.handle_left_type = 'AUTO'; bp.handle_right_type = 'AUTO'' @ [CHR 0x27]),
      (68, ''    curve_obj = bpy.data.objects.new(name, curve_data)''),
      (69, ''    (col or bpy.context.scene.collection).objects.link(curve_obj)''),
      (70, ''    return curve_obj''),
      (71, ''''),
      (72, ''def set_active_camera(cam_obj): bpy.context.scene.camera = cam_obj''),
      (73, ''''),
      (74, ''def make_basic_material(name, base_color=(0.8,0.8,0.8,1.0), metallic=0.0, roughness=0.5):''),
      (75, ''    mat = bpy.data.materials.get(name) or bpy.data.materials.new(name)''),
      (76, ''    mat.use_nodes = True; nt = mat.node_tree''),
      (77, ''    for n in nt.nodes: nt.nodes.remove(n)''),
      (78, ''    out = nt.nodes.new('ShaderNodeOutputMaterial')''),
      (79, ''    bsdf = nt.nodes.new('ShaderNodeBsdfPrincipled')''),
      (80, ''    bsdf.inputs['Base Color'].default_value = base_color''),
      (81, ''    bsdf.inputs['Metallic'].default_value = metallic''),
      (82, ''    bsdf.inputs['Roughness'].default_value = roughness''),
      (83, ''    nt.links.new(bsdf.outputs['BSDF'], out.inputs['Surface'])''),
      (84, ''    return mat''),
      (85, ''''),
      (86, ''def assign_material(obj, mat):''),
      (87, ''    if obj.data and hasattr(obj.data, "materials"):''),
      (88, ''        if len(obj.data.materials) == 0: obj.data.materials.append(mat)''),
      (89, ''        else: obj.data.materials[0] = mat''),
      (90, ''''),
      (91, ''def add_text_object(text, name="Label", size=0.6, loc=(0,0,0), rot=(0,0,0), col=None):''),
      (92, ''    bpy.ops.object.text_add(location=loc, rotation=rot)''),
      (93, ''    txt = bpy.context.active_object''),
      (94, ''    txt.data.body = text; txt.name = name''),
      (95, ''    txt.data.align_x = 'CENTER'; txt.data.align_y = 'CENTER'' @ [CHR 0x27]),
      (96, ''    txt.data.extrude = 0.0; txt.data.size = size''),
      (97, ''    if col and txt.name not in col.objects:''),
      (98, ''        col.objects.link(txt); bpy.context.scene.collection.objects.unlink(txt)''),
      (99, ''    return txt''),
      (100, ''''),
      (101, ''def build_scene():''),
      (102, ''    scene = bpy.context.scene''),
      (103, ''    # Render / color / fps / output''),
      (104, ''    scene.render.fps = 30''),
      (105, ''    scene.render.image_settings.file_format = 'FFMPEG'' @ [CHR 0x27]),
      (106, ''    scene.render.ffmpeg.format = 'MPEG4'' @ [CHR 0x27]),
      (107, ''    scene.render.ffmpeg.codec = 'H264'' @ [CHR 0x27]),
      (108, ''    scene.render.ffmpeg.constant_rate_factor = 'HIGH'' @ [CHR 0x27]),
      (109, ''    scene.render.ffmpeg.ffmpeg_preset = 'GOOD'' @ [CHR 0x27]),
      (110, ''    scene.render.resolution_x = 1920; scene.render.resolution_y = 1080''),
      (111, ''    scene.render.resolution_percentage = 100''),
      (112, ''    scene.frame_start = 0; scene.frame_end = 600''),
      (113, ''    scene.display_settings.display_device = 'sRGB'' @ [CHR 0x27]),
      (114, ''    scene.view_settings.view_transform = 'Filmic'' @ [CHR 0x27]),
      (115, ''    scene.view_settings.look = 'Medium High Contrast'' @ [CHR 0x27]),
      (116, ''    # Cycles CPU-safe + denoise + motion blur''),
      (117, ''    scene.render.engine = 'CYCLES'' @ [CHR 0x27]),
      (118, ''    scene.cycles.device = 'CPU'' @ [CHR 0x27]),
      (119, ''    scene.cycles.samples = 256''),
      (120, ''    scene.cycles.use_denoising = True''),
      (121, ''    scene.render.use_motion_blur = True''),
      (122, ''    scene.render.motion_blur_shutter = 0.5''),
      (123, ''    scene.render.filepath = "//renders/walkthrough_preview.mp4"''),
      (124, ''root = scene.collection''),
      (125, ''    col_ground   = ensure_collection("Ground_Floor", root)''),
      (126, ''    col_first    = ensure_collection("First_Floor", root)'')]\<close>

text \<open>
  A line that is blank or holds only a comment does not count. The indentation of a line
  is the number of spaces it starts with (the file has no tabs). A line whose last
  character is a colon is the header of a block, which the next line must open by a deeper
  indentation; no line of this stretch goes on to the next one.
\<close>

definition indent_of :: "string \<Rightarrow> nat" where
  "indent_of l = length (takeWhile (\<lambda>c. c = CHR '' '') l)"

definition is_blank :: "string \<Rightarrow> bool" where
  "is_blank l = (case dropWhile (\<lambda>c. c = CHR '' '') l of [] \<Rightarrow> True | c # _ \<Rightarrow> c = CHR ''#'')"

definition opens_block :: "string \<Rightarrow> bool" where
  "opens_block l = (case dropWhile (\<lambda>c. c = CHR '' '') (rev l) of [] \<Rightarrow> False | c # _ \<Rightarrow> c = CHR '':'')"

text \<open>
  The check keeps the stack of the indentations of the open blocks (innermost first, 0 at
  the bottom) and whether the line before was a header. After a header the line must be
  deeper; elsewhere a deeper line is an unexpected indent, and a shallower line must
  return to an indentation on the stack.
\<close>

fun check_layout :: "nat list \<Rightarrow> bool \<Rightarrow> (nat \<times> string) list \<Rightarrow> error + nat list" where
  "check_layout stack opened [] = Inr stack"
| "check_layout stack opened ((n, l) # ls) =
     (if is_blank l then check_layout stack opened ls
      else if opened then
        (if indent_of l > hd stack then check_layout (indent_of l # stack) (opens_block l) ls
         else Inl (IndentationError n ''expected an indented block''))
      else if indent_of l > hd stack then Inl (IndentationError n ''unexpected indent'')
      else
        (case dropWhile (\<lambda>i. i > indent_of l) stack of
           [] \<Rightarrow> Inl (IndentationError n ''unindent does not match any outer indentation level'')
         | i # rest \<Rightarrow>
             if i = indent_of l then check_layout (i # rest) (opens_block l) ls
             else Inl (IndentationError n ''unindent does not match any outer indentation level'')))"

text \<open>
  Running the script: the file is compiled, and only a file that compiles runs its
  statements, the last of which is the \<^verbatim>\<open>__main__\<close> block. (The lines after 126 stay
  out of the check: it has stopped before it reads them.)
\<close>

definition run_script :: "(host, unit) prog" where
  "run_script =
     (case check_layout [0] False source_lines of
        Inl e \<Rightarrow> raise e
      | Inr _ \<Rightarrow> main)"

section \<open>Values the proofs name\<close>

text \<open>A control point as the loop of \<^verbatim>\<open>add_bezier_path\<close> leaves it, and the tree the world block builds.\<close>

abbreviation auto_point :: "vec3 \<Rightarrow> bezier_point" where
  "auto_point p \<equiv> \<lparr>co = p, handle_left_type = ''AUTO'', handle_right_type = ''AUTO''\<rparr>"

abbreviation sky_tree :: node_tree where
  "sky_tree \<equiv> \<lparr>nodes =
     [\<lparr>node_id = 1, bl_idname = ''ShaderNodeOutputWorld'',
       inputs = [(''Surface'', \<lparr>default_value = Unset, link_from = Some (2, ''Background'')\<rparr>),
                 (''Volume'', unlinked)],
       outputs = [], attrs = []\<rparr>,
      \<lparr>node_id = 2, bl_idname = ''ShaderNodeBackground'',
       inputs = [(''Color'', \<lparr>default_value = Unset, link_from = Some (3, ''Color'')\<rparr>),
                 (''Strength'', \<lparr>default_value = Num 1.2, link_from = None\<rparr>)],
       outputs = [''Background''], attrs = []\<rparr>,
      \<lparr>node_id = 3, bl_idname = ''ShaderNodeTexSky'',
       inputs = [(''Vector'', unlinked)],
       outputs = [''Color''], attrs = [(''sun_elevation'', Num (radians 45))]\<rparr>]\<rparr>"

text \<open>The curve that \<^verbatim>\<open>add_bezier_path\<close> creates for a name and a list of points.\<close>

abbreviation path_curve :: "string \<Rightarrow> vec3 list \<Rightarrow> curve" where
  "path_curve name pts \<equiv>
     \<lparr>curve_name = name, dimensions = ''3D'',
      splines = [\<lparr>spline_type = ''BEZIER'', bezier_points = map auto_point pts\<rparr>],
      curve_materials = [], use_cyclic_u = False, path_duration = 100\<rparr>"

section \<open>Example states\<close>

text \<open>A host with an empty scene, and one holding a cube with two material slots.\<close>

definition host0 :: host where
  "host0 =
     \<lparr>scn = \<lparr>fps = 24, file_format = ''PNG'', ffmpeg_format = ''MKV'', ffmpeg_codec = ''NONE'',
             constant_rate_factor = ''MEDIUM'', ffmpeg_preset = ''GOOD'',
             resolution_x = 1280, resolution_y = 720, resolution_percentage = 50,
             frame_start = 1, frame_end = 250,
             display_device = ''sRGB'', view_transform = ''Standard'', look = ''None'',
             engine = ''BLENDER_EEVEE'', cycles_device = ''CPU'', cycles_samples = 128,
             use_denoising = False, use_motion_blur = False, motion_blur_shutter = 1,
             filepath = ''/tmp/'', frame_current = 1, scene_world = None, scene_camera = None\<rparr>,
      scene_collection = \<lparr>children = [], col_objects = []\<rparr>,
      collections = [], materials = [], worlds = [],
      meshes = [], curves = [], cameras = [], objects = [],
      active_object = None, timeline_markers = [], ops = [],
      blend_dir = ''/home/user/duplex'', dirs = {[''home''], [''home'', ''user''], [''home'', ''user'', ''duplex'']},
      files = Map.empty, stdout = []\<rparr>"

definition host_cube :: host where
  "host_cube = host0
     \<lparr>meshes := [\<lparr>mesh_materials = [Some ''Plaster'', Some ''Trim'']\<rparr>],
      objects := [\<lparr>ob_name = ''Cube'', data = Some (MeshData 0), location = (0, 0, 0),
                   constraints = [], select = False\<rparr>]\<rparr>"



section \<open>Properties\<close>

subsection \<open>Running programs\<close>

lemma bnd_ret [simp]: "bnd (ret a) k = k a"
  by (simp add: bnd_def ret_def)

lemma bnd_raise [simp]: "bnd (raise e) k = raise e"
  by (simp add: bnd_def raise_def)

lemma bnd_modify [simp]: "bnd (modify f) k s = k () (f s)"
  by (simp add: bnd_def modify_def)

lemma bnd_gets [simp]: "bnd (gets f) k s = k (f s) s"
  by (simp add: bnd_def gets_def)

lemma ret_apply [simp]: "ret a s = (Inr a, s)"
  by (simp add: ret_def)

lemma raise_apply [simp]: "raise e s = (Inl e, s)"
  by (simp add: raise_def)

lemma modify_apply [simp]: "modify f s = (Inr (), f s)"
  by (simp add: modify_def)

lemma gets_apply [simp]: "gets f s = (Inr (f s), s)"
  by (simp add: gets_def)

lemma bnd_assoc [simp]: "bnd (bnd m k) h = bnd m (\<lambda>a. bnd (k a) h)"
  by (auto simp: bnd_def fun_eq_iff split: prod.splits sum.splits)

lemma deref_apply [simp]:
  "deref sel i s = (if i < length (sel s) then (Inr (sel s ! i), s) else (Inl ReferenceError, s))"
  by (simp add: deref_def)

lemma bnd_deref [simp]:
  "bnd (deref sel i) k s = (if i < length (sel s) then k (sel s ! i) s else (Inl ReferenceError, s))"
  by (simp add: bnd_def deref_def)

lemma bnd_Pair [simp]:
  "bnd (Pair (Inr a)) k = k a"
  "bnd (Pair (Inl e)) k = Pair (Inl e)"
  by (simp_all add: bnd_def fun_eq_iff)

lemma bnd_eval:
  "bnd m k s = (case fst (m s) of Inl e \<Rightarrow> (Inl e, snd (m s)) | Inr a \<Rightarrow> k a (snd (m s)))"
  by (simp add: bnd_def split: prod.splits sum.splits)

lemma bnd_apply:
  "bnd m k s = (case m s of (Inl e, s') \<Rightarrow> (Inl e, s') | (Inr a, s') \<Rightarrow> k a s')"
  by (simp add: bnd_def)

subsection \<open>ensure_collection\<close>

lemma ec_present:
  "map_of (collections s) name = Some c \<Longrightarrow> ensure_collection name parent s = (Inr (DataCollection name), s)"
  by (simp add: ensure_collection_def collections_get_def)

lemma ec_absent_root:
  "map_of (collections s) name = None \<Longrightarrow> parent = None \<or> parent = Some SceneCollection \<Longrightarrow>
   ensure_collection name parent s =
     (Inr (DataCollection name),
      s\<lparr>collections := collections s @ [(name, empty_collection)],
        scene_collection := (scene_collection s)\<lparr>children := children (scene_collection s) @ [name]\<rparr>\<rparr>)"
  by (auto simp add: ensure_collection_def collections_get_def collections_new_def)











subsection \<open>make_basic_material\<close>

lemma for_each_modify:
  "for_each xs (\<lambda>x. modify (f x)) s = (Inr (), fold f xs s)"
  by (induction xs arbitrary: s) simp_all

lemma remove_ids:
  "map node_id (nodes (fold (\<lambda>n t. t\<lparr>nodes := map (unlink (node_id n)) (filter (\<lambda>m. node_id m \<noteq> node_id n) (nodes t))\<rparr>) ns t))
     = filter (\<lambda>j. j \<notin> node_id ` set ns) (map node_id (nodes t))"
proof (induction ns arbitrary: t)
  case Nil
  show ?case by simp
next
  case (Cons n ns)
  have [simp]: "node_id (unlink i x) = node_id x" for i x
    by (simp add: unlink_def)
  show ?case
    by (simp add: Cons.IH filter_map comp_def conj_commute)
qed

lemma remove_all_nodes_empty: "remove_all_nodes t = (Inr (), \<lparr>nodes = []\<rparr>)"
proof -
  let ?f = "\<lambda>n t. t\<lparr>nodes := map (unlink (node_id n)) (filter (\<lambda>m. node_id m \<noteq> node_id n) (nodes t))\<rparr>"
  have run: "remove_all_nodes t = (Inr (), fold ?f (nodes t) t)"
    by (simp add: remove_all_nodes_def nodes_remove_def for_each_modify)
  have "map node_id (nodes (fold ?f (nodes t) t)) = []"
    by (simp add: remove_ids)
  then have "nodes (fold ?f (nodes t) t) = []" by simp
  then have "fold ?f (nodes t) t = \<lparr>nodes = []\<rparr>"
    by (cases "fold ?f (nodes t) t") simp
  with run show ?thesis by simp
qed

lemma tree_block:
  "material_nodes base_color metallic roughness t = (Inr (), basic_tree base_color metallic roughness)"
  unfolding material_nodes_def
  apply (subst bnd_def)
  apply (simp add: remove_all_nodes_empty)
  apply (simp add: nodes_new_def node_type_def fresh_id_def set_input_def get_node_def put_node_def links_new_def unlinked_def)
  done

lemma update_absent: "map_of xs k = None \<Longrightarrow> AList.update k v xs = xs @ [(k, v)]"
  by (induction xs) (auto split: if_splits)

lemma update_appended:
  "map_of xs k = None \<Longrightarrow> AList.update k v (xs @ [(k, w)]) = xs @ [(k, v)]"
  by (induction xs) (auto split: if_splits)

lemma update_twice: "AList.update k v (AList.update k w xs) = AList.update k v xs"
  by (induction xs) auto

lemma nodal_eq: "b\<lparr>use_nodes := u, node_tree := t\<rparr> = \<lparr>use_nodes = u, node_tree = t\<rparr>"
  by (cases b) simp

lemma run_block:
  assumes "m t = (Inr a, t')" "map_of (materials s) n = Some b" "node_tree b = Some t"
  shows "on_tree (MaterialTree n) m s =
    (Inr a, s\<lparr>materials := AList.update n (b\<lparr>node_tree := Some t'\<rparr>) (materials s)\<rparr>)"
  using assms by (simp add: on_tree_def)

lemma bnd_run: "m s = (Inr a, s') \<Longrightarrow> bnd m k s = k a s'"
  by (simp add: bnd_def)

lemma make_basic_material_run:
  "make_basic_material name c m r s =
     (Inr name, s\<lparr>materials :=
        AList.update name \<lparr>use_nodes = True, node_tree = Some (basic_tree c m r)\<rparr> (materials s)\<rparr>)"
proof -
  let ?get = "bnd (materials_get name) (\<lambda>r. case r of Some m \<Rightarrow> ret m | None \<Rightarrow> materials_new name)"
  obtain s1 where get: "?get s = (Inr name, s1)"
    and s1: "s1 = s \<or> (map_of (materials s) name = None \<and>
               s1 = s\<lparr>materials := materials s @ [(name, \<lparr>use_nodes = False, node_tree = None\<rparr>)]\<rparr>)"
    and b1: "\<exists>b. map_of (materials s1) name = Some b"
    by (cases "map_of (materials s) name")
       (auto simp: materials_get_def materials_new_def map_add_def)
  from b1 obtain b where b: "map_of (materials s1) name = Some b" ..
  let ?t = "case node_tree b of None \<Rightarrow> initial_tree (MaterialTree name) | Some t \<Rightarrow> t"
  let ?b2 = "\<lparr>use_nodes = True, node_tree = Some ?t\<rparr>"
  let ?s2 = "s1\<lparr>materials := AList.update name ?b2 (materials s1)\<rparr>"
  have use: "set_use_nodes (MaterialTree name) s1 = (Inr (), ?s2)"
    using b by (simp add: set_use_nodes_def nodal_eq)
  have look: "map_of (materials ?s2) name = Some ?b2"
    by (simp add: update_conv')
  have nt: "node_tree ?b2 = Some ?t"
    by simp
  have block: "on_tree (MaterialTree name) (material_nodes c m r) ?s2 =
      (Inr (), s1\<lparr>materials := AList.update name
               \<lparr>use_nodes = True, node_tree = Some (basic_tree c m r)\<rparr> (materials s1)\<rparr>)"
    using run_block [OF tree_block look nt] by simp
  have fin: "s1\<lparr>materials := AList.update name v (materials s1)\<rparr> =
             s\<lparr>materials := AList.update name v (materials s)\<rparr>" for v
    using s1 by (auto simp: update_absent update_appended)
  note step1 = bnd_run [where m = "?get" and s = s, OF get]
  note step2 = bnd_run [where m = "set_use_nodes (MaterialTree name)" and s = s1, OF use]
  note step3 = bnd_run [where m = "on_tree (MaterialTree name) (material_nodes c m r)" and s = "?s2", OF block]
  have "make_basic_material name c m r s =
      (Inr name, s1\<lparr>materials := AList.update name
               \<lparr>use_nodes = True, node_tree = Some (basic_tree c m r)\<rparr> (materials s1)\<rparr>)"
    unfolding make_basic_material_def
    by (simp add: step1 step2 step3 del: bnd_assoc)
  then show ?thesis
    by (simp only: fin)
qed


subsection \<open>add_bezier_path\<close>

lemma set_points_loop:
  "k + length pts \<le> length xs \<Longrightarrow>
   for_each (enumerate k pts) (\<lambda>(i, p). set_point i p) xs =
     (Inr (), take k xs @ map auto_point pts @ drop (k + length pts) xs)"
proof (induction pts arbitrary: k xs)
  case Nil
  then show ?case by simp
next
  case (Cons p pts)
  let ?xs' = "xs[k := (xs ! k)\<lparr>co := p, handle_left_type := ''AUTO'', handle_right_type := ''AUTO''\<rparr>]"
  from Cons.prems have k: "k < length xs" by simp
  have pt: "(xs ! k)\<lparr>co := p, handle_left_type := ''AUTO'', handle_right_type := ''AUTO''\<rparr> = auto_point p"
    by (cases "xs ! k") simp
  have step: "set_point k p xs = (Inr (), ?xs')"
    using k by (simp add: set_point_def)
  have "for_each (enumerate k (p # pts)) (\<lambda>(i, p). set_point i p) xs =
        for_each (enumerate (Suc k) pts) (\<lambda>(i, p). set_point i p) ?xs'"
    by (simp add: bnd_apply step)
  also have "\<dots> = (Inr (), take (Suc k) ?xs' @ map auto_point pts @ drop (Suc k + length pts) ?xs')"
    using Cons.prems by (intro Cons.IH) simp
  also have "take (Suc k) ?xs' = take k xs @ [auto_point p]"
    using k by (simp add: take_Suc_conv_app_nth pt)
  also have "drop (Suc k + length pts) ?xs' = drop (k + length (p # pts)) xs"
    by simp
  finally show ?case by simp
qed

lemma fill_points:
  "pts \<noteq> [] \<Longrightarrow>
   bnd (points_add (int (length pts) - 1)) (\<lambda>_. for_each (enumerate 0 pts) (\<lambda>(i, p). set_point i p))
     [default_point] = (Inr (), map auto_point pts)"
proof -
  assume ne: "pts \<noteq> []"
  then have n: "\<not> int (length pts) - 1 < 0" "nat (int (length pts) - 1) = length pts - 1"
    by (cases pts; simp)+
  let ?xs = "[default_point] @ replicate (length pts - 1) default_point"
  have len: "0 + length pts \<le> length ?xs" using ne by (cases pts) simp_all
  have "for_each (enumerate 0 pts) (\<lambda>(i, p). set_point i p) ?xs = (Inr (), map auto_point pts)"
    using set_points_loop [OF len] ne by (cases pts) simp_all
  then show ?thesis
    using n by (simp add: points_add_def)
qed


lemma objects_link_run:
  "col = None \<or> col = Some SceneCollection \<or> (\<exists>c cc. col = Some (DataCollection c) \<and> map_of (collections s) c = Some cc) \<Longrightarrow>
   fst (objects_link (col_or_scene col) ob s) = Inr ()"
  by (auto simp: col_or_scene_def)


lemma add_bezier_path_run:
  assumes "points \<noteq> []"
    and "col = None \<or> col = Some SceneCollection \<or>
         (\<exists>c cc. col = Some (DataCollection c) \<and> map_of (collections s) c = Some cc)"
  shows "add_bezier_path name points col s =
    (Inr (length (objects s)),
     snd (objects_link (col_or_scene col) (length (objects s))
       (s\<lparr>curves := curves s @
            [\<lparr>curve_name = name, dimensions = ''3D'',
              splines = [\<lparr>spline_type = ''BEZIER'', bezier_points = map auto_point points\<rparr>],
              curve_materials = [], use_cyclic_u = False, path_duration = 100\<rparr>],
          objects := objects s @
            [\<lparr>ob_name = name, data = Some (CurveData (length (curves s))), location = (0, 0, 0),
              constraints = [], select = False\<rparr>]\<rparr>)))"
proof -
  let ?s1 = "s\<lparr>curves := curves s @
            [\<lparr>curve_name = name, dimensions = ''3D'',
              splines = [\<lparr>spline_type = ''BEZIER'', bezier_points = map auto_point points\<rparr>],
              curve_materials = [], use_cyclic_u = False, path_duration = 100\<rparr>],
          objects := objects s @
            [\<lparr>ob_name = name, data = Some (CurveData (length (curves s))), location = (0, 0, 0),
              constraints = [], select = False\<rparr>]\<rparr>"
  have link: "fst (objects_link (col_or_scene col) (length (objects s)) ?s1) = Inr ()"
    using assms(2) by (intro objects_link_run) simp
  have "add_bezier_path name points col s =
     bnd (objects_link (col_or_scene col) (length (objects s))) (\<lambda>_. ret (length (objects s))) ?s1"
    by (simp add: add_bezier_path_def curves_new_def update_curve_def splines_new_def on_points_def
        objects_new_def fill_points [OF assms(1)])
  also have "\<dots> = (Inr (length (objects s)), snd (objects_link (col_or_scene col) (length (objects s)) ?s1))"
    using link by (simp add: bnd_eval)
  finally show ?thesis .
qed

subsection \<open>The world\<close>

lemma world_nodes_run: "world_nodes t = (Inr (), sky_tree)"
  unfolding world_nodes_def
  apply (subst bnd_def)
  apply (simp add: remove_all_nodes_empty)
  apply (simp add: nodes_new_def node_type_def fresh_id_def set_input_def set_attr_def get_node_def
      put_node_def links_new_def unlinked_def)
  done

lemma on_world_tree:
  assumes "m t = (Inr a, t')" "map_of (worlds s) n = Some b" "node_tree b = Some t"
  shows "on_tree (WorldTree n) m s =
    (Inr a, s\<lparr>worlds := AList.update n (b\<lparr>node_tree := Some t'\<rparr>) (worlds s)\<rparr>)"
  using assms by (simp add: on_tree_def)

lemma build_scene_world_run:
  "build_scene_world s =
     (Inr (), s\<lparr>scn := (scn s)\<lparr>scene_world := Some ''World''\<rparr>,
               worlds := AList.update ''World'' \<lparr>use_nodes = True, node_tree = Some sky_tree\<rparr> (worlds s)\<rparr>)"
proof -
  let ?get = "bnd (worlds_get ''World'') (\<lambda>r. case r of Some w \<Rightarrow> ret w | None \<Rightarrow> worlds_new ''World'')"
  obtain s1 where get: "?get s = (Inr ''World'', s1)"
    and s1: "s1 = s \<or> (map_of (worlds s) ''World'' = None \<and>
               s1 = s\<lparr>worlds := worlds s @ [(''World'', \<lparr>use_nodes = False, node_tree = None\<rparr>)]\<rparr>)"
    and b1: "\<exists>b. map_of (worlds s1) ''World'' = Some b"
    by (cases "map_of (worlds s) ''World''")
       (auto simp: worlds_get_def worlds_new_def map_add_def)
  from b1 obtain b where b: "map_of (worlds s1) ''World'' = Some b" ..
  let ?s1' = "s1\<lparr>scn := (scn s1)\<lparr>scene_world := Some ''World''\<rparr>\<rparr>"
  let ?t = "case node_tree b of None \<Rightarrow> initial_tree (WorldTree ''World'') | Some t \<Rightarrow> t"
  let ?b2 = "\<lparr>use_nodes = True, node_tree = Some ?t\<rparr>"
  let ?s2 = "?s1'\<lparr>worlds := AList.update ''World'' ?b2 (worlds s1)\<rparr>"
  have use: "set_use_nodes (WorldTree ''World'') ?s1' = (Inr (), ?s2)"
    using b by (simp add: set_use_nodes_def nodal_eq)
  have look: "map_of (worlds ?s2) ''World'' = Some ?b2"
    by (simp add: update_conv')
  have nt: "node_tree ?b2 = Some ?t"
    by simp
  have block: "on_tree (WorldTree ''World'') world_nodes ?s2 =
      (Inr (), ?s1'\<lparr>worlds := AList.update ''World''
               \<lparr>use_nodes = True, node_tree = Some sky_tree\<rparr> (worlds s1)\<rparr>)"
    using on_world_tree [OF world_nodes_run look nt] by simp
  have fin: "s1\<lparr>scn := c, worlds := AList.update ''World'' v (worlds s1)\<rparr> =
             s\<lparr>scn := c, worlds := AList.update ''World'' v (worlds s)\<rparr>" for v c
    using s1 by (auto simp: update_absent update_appended)
  have sc: "scn s1 = scn s"
    using s1 by auto
  have "build_scene_world s =
      (Inr (), ?s1'\<lparr>worlds := AList.update ''World''
               \<lparr>use_nodes = True, node_tree = Some sky_tree\<rparr> (worlds s1)\<rparr>)"
    unfolding build_scene_world_def
    by (simp add: bnd_run [where m = "?get" and s = s, OF get]
        bnd_run [where m = "set_use_nodes (WorldTree ''World'')" and s = "?s1'", OF use]
        block del: bnd_assoc)
  then show ?thesis
    by (simp only: fin sc)
qed

subsection \<open>assign_material\<close>

text \<open>
  C10. \<^verbatim>\<open>assign_material\<close> changes the first material slot and nothing else. For an
  object whose data is a mesh or a curve, an empty slot list becomes the one slot holding
  the material, and a non-empty one has its slot 0 replaced while the slots after it stay;
  every other part of the host state is as before. For an object without data, or whose
  data is a camera (no \<^verbatim>\<open>materials\<close> attribute), the state is unchanged.
\<close>

theorem assign_material_first_slot:
  "obj < length (objects s) \<Longrightarrow>
   (case data (objects s ! obj) of
      None \<Rightarrow> assign_material obj mat s = (Inr (), s)
    | Some (CameraData i) \<Rightarrow> i < length (cameras s) \<longrightarrow> assign_material obj mat s = (Inr (), s)
    | Some (MeshData i) \<Rightarrow> i < length (meshes s) \<longrightarrow>
        assign_material obj mat s =
          (Inr (), s\<lparr>meshes := (meshes s)[i := (meshes s ! i)\<lparr>mesh_materials :=
             (case mesh_materials (meshes s ! i) of [] \<Rightarrow> [Some mat] | m # ms \<Rightarrow> Some mat # ms)\<rparr>]\<rparr>)
    | Some (CurveData i) \<Rightarrow> i < length (curves s) \<longrightarrow>
        assign_material obj mat s =
          (Inr (), s\<lparr>curves := (curves s)[i := (curves s ! i)\<lparr>curve_materials :=
             (case curve_materials (curves s ! i) of [] \<Rightarrow> [Some mat] | m # ms \<Rightarrow> Some mat # ms)\<rparr>]\<rparr>))"
  by (auto simp: assign_material_def bnd_def
           split: option.splits data_ref.splits list.splits)

theorem assign_material_first_slot_witness:
  "assign_material 0 ''Wood'' host_cube =
     (Inr (), host_cube\<lparr>meshes := [\<lparr>mesh_materials = [Some ''Wood'', Some ''Trim'']\<rparr>]\<rparr>)"
  using assign_material_first_slot [of 0 host_cube "''Wood''"]
  by (simp add: host_cube_def host0_def)

subsection \<open>build_scene\<close>

lemma ec_root_fst: "fst (ensure_collection n (Some SceneCollection) s) = Inr (DataCollection n)"
  by (cases "map_of (collections s) n") (simp_all add: ec_present ec_absent_root)

lemma ec_root_frame:
  "scn (snd (ensure_collection n (Some SceneCollection) s)) = scn s"
  "materials (snd (ensure_collection n (Some SceneCollection) s)) = materials s"
  "worlds (snd (ensure_collection n (Some SceneCollection) s)) = worlds s"
  "meshes (snd (ensure_collection n (Some SceneCollection) s)) = meshes s"
  "curves (snd (ensure_collection n (Some SceneCollection) s)) = curves s"
  "cameras (snd (ensure_collection n (Some SceneCollection) s)) = cameras s"
  "objects (snd (ensure_collection n (Some SceneCollection) s)) = objects s"
  "active_object (snd (ensure_collection n (Some SceneCollection) s)) = active_object s"
  "timeline_markers (snd (ensure_collection n (Some SceneCollection) s)) = timeline_markers s"
  "ops (snd (ensure_collection n (Some SceneCollection) s)) = ops s"
  "stdout (snd (ensure_collection n (Some SceneCollection) s)) = stdout s"
  "blend_dir (snd (ensure_collection n (Some SceneCollection) s)) = blend_dir s"
  "dirs (snd (ensure_collection n (Some SceneCollection) s)) = dirs s"
  "files (snd (ensure_collection n (Some SceneCollection) s)) = files s"
  by (cases "map_of (collections s) n"; simp add: ec_present ec_absent_root)+

lemma ec_root_has:
  "(map_of (collections (snd (ensure_collection n (Some SceneCollection) s))) k = None) =
     (k \<noteq> n \<and> map_of (collections s) k = None)"
  by (cases "map_of (collections s) n") (auto simp: ec_present ec_absent_root map_add_def split: option.splits)

lemma add_bezier_path_in:
  assumes "points \<noteq> []" "map_of (collections s) c \<noteq> None"
  shows "add_bezier_path name points (Some (DataCollection c)) s =
    (Inr (length (objects s)),
     s\<lparr>curves := curves s @
            [\<lparr>curve_name = name, dimensions = ''3D'',
              splines = [\<lparr>spline_type = ''BEZIER'', bezier_points = map auto_point points\<rparr>],
              curve_materials = [], use_cyclic_u = False, path_duration = 100\<rparr>],
       objects := objects s @
            [\<lparr>ob_name = name, data = Some (CurveData (length (curves s))), location = (0, 0, 0),
              constraints = [], select = False\<rparr>],
       collections := AList.update c
            ((the (map_of (collections s) c))
               \<lparr>col_objects := col_objects (the (map_of (collections s) c)) @ [length (objects s)]\<rparr>)
            (collections s)\<rparr>)"
proof -
  from assms(2) obtain cc where cc: "map_of (collections s) c = Some cc" by auto
  then have "Some (DataCollection c) = None \<or> Some (DataCollection c) = Some SceneCollection \<or>
      (\<exists>c' cc. Some (DataCollection c) = Some (DataCollection c') \<and> map_of (collections s) c' = Some cc)"
    by simp
  from add_bezier_path_run [OF assms(1) this] cc show ?thesis
    by (simp add: col_or_scene_def)
qed

lemma add_camera_in:
  assumes "map_of (collections s) c \<noteq> None"
  shows "add_camera name loc l (Some (DataCollection c)) s =
    (Inr (length (objects s)),
     s\<lparr>cameras := cameras s @ [\<lparr>camera_name = name, lens = l\<rparr>],
       objects := objects s @
            [\<lparr>ob_name = name, data = Some (CameraData (length (cameras s))), location = loc,
              constraints = [], select = False\<rparr>],
       collections := AList.update c
            ((the (map_of (collections s) c))
               \<lparr>col_objects := col_objects (the (map_of (collections s) c)) @ [length (objects s)]\<rparr>)
            (collections s)\<rparr>)"
proof -
  from assms obtain cc where cc: "map_of (collections s) c = Some cc" by auto
  then show ?thesis
    by (simp add: add_camera_def cameras_new_def update_camera_def objects_new_def update_object_def
        col_or_scene_def)
qed


lemma pts_ne: "walk_pts \<noteq> []" "aero_pts \<noteq> []"
  by (simp_all add: walk_pts_def aero_pts_def split: prod.splits)

lemma bsc_fst:
  "fst (build_scene_collections s) =
     Inr (DataCollection ''Cameras_Walkthrough'', DataCollection ''Cameras_Aerial'')"
  by (simp add: build_scene_collections_def bnd_eval ec_root_fst)

lemma bsc_frame:
  "scn (snd (build_scene_collections s)) = scn s"
  "materials (snd (build_scene_collections s)) = materials s"
  "worlds (snd (build_scene_collections s)) = worlds s"
  "curves (snd (build_scene_collections s)) = curves s"
  "cameras (snd (build_scene_collections s)) = cameras s"
  "objects (snd (build_scene_collections s)) = objects s"
  "timeline_markers (snd (build_scene_collections s)) = timeline_markers s"
  by (simp_all add: build_scene_collections_def bnd_eval ec_root_fst ec_root_frame)

lemma bsc_has:
  "map_of (collections (snd (build_scene_collections s))) ''Cameras_Walkthrough'' \<noteq> None"
  "map_of (collections (snd (build_scene_collections s))) ''Cameras_Aerial'' \<noteq> None"
  by (simp_all add: build_scene_collections_def bnd_eval ec_root_fst ec_root_has)

lemma bsm_fst: "fst (build_scene_materials s) = Inr ()"
  by (simp add: build_scene_materials_def bnd_eval make_basic_material_run)

lemma bsm_frame:
  "scn (snd (build_scene_materials s)) = scn s"
  "collections (snd (build_scene_materials s)) = collections s"
  "worlds (snd (build_scene_materials s)) = worlds s"
  "curves (snd (build_scene_materials s)) = curves s"
  "cameras (snd (build_scene_materials s)) = cameras s"
  "objects (snd (build_scene_materials s)) = objects s"
  "timeline_markers (snd (build_scene_materials s)) = timeline_markers s"
  by (simp_all add: build_scene_materials_def bnd_eval make_basic_material_run)


lemma upd_app:
  "(xs @ ys)[length xs := v] = xs @ ys[0 := v]"
  "(xs @ ys)[Suc (length xs) := v] = xs @ ys[Suc 0 := v]"
  "(xs @ ys)[Suc (Suc (length xs)) := v] = xs @ ys[Suc (Suc 0) := v]"
  "(xs @ ys)[Suc (Suc (Suc (length xs))) := v] = xs @ ys[Suc (Suc (Suc 0)) := v]"
  by (simp_all add: list_update_append numeral_2_eq_2 numeral_3_eq_3)

lemma nth_app:
  "(xs @ ys) ! length xs = ys ! 0"
  "(xs @ ys) ! Suc (length xs) = ys ! Suc 0"
  "(xs @ ys) ! Suc (Suc (length xs)) = ys ! Suc (Suc 0)"
  "(xs @ ys) ! Suc (Suc (Suc (length xs))) = ys ! Suc (Suc (Suc 0))"
  by (simp_all add: nth_append numeral_2_eq_2 numeral_3_eq_3)

lemma bsp_run:
  assumes "map_of (collections s) cw \<noteq> None" "map_of (collections s) ca \<noteq> None"
  shows "fst (build_scene_paths (DataCollection cw) (DataCollection ca) s) =
           Inr (length (objects s), Suc (length (objects s)))"
    and "curves (snd (build_scene_paths (DataCollection cw) (DataCollection ca) s)) =
           curves s @ [path_curve ''Walkthrough_Path'' walk_pts,
                       (path_curve ''Aerial_Spin_Path'' aero_pts)\<lparr>use_cyclic_u := True\<rparr>]"
    and "objects (snd (build_scene_paths (DataCollection cw) (DataCollection ca) s)) =
           objects s @
             [\<lparr>ob_name = ''Walkthrough_Path'', data = Some (CurveData (length (curves s))),
               location = (0, 0, 0), constraints = [], select = False\<rparr>,
              \<lparr>ob_name = ''Aerial_Spin_Path'', data = Some (CurveData (Suc (length (curves s)))),
               location = (0, 0, 0), constraints = [], select = False\<rparr>]"
    and "scn (snd (build_scene_paths (DataCollection cw) (DataCollection ca) s)) = scn s"
    and "worlds (snd (build_scene_paths (DataCollection cw) (DataCollection ca) s)) = worlds s"
    and "cameras (snd (build_scene_paths (DataCollection cw) (DataCollection ca) s)) = cameras s"
    and "timeline_markers (snd (build_scene_paths (DataCollection cw) (DataCollection ca) s)) = timeline_markers s"
    and "(map_of (collections (snd (build_scene_paths (DataCollection cw) (DataCollection ca) s))) k = None)
           = (map_of (collections s) k = None)"
  using assms
  by (auto simp add: build_scene_paths_def bnd_eval add_bezier_path_in pts_ne update_conv'
      curve_of_def update_curve_def nth_app upd_app)


lemma bscam_run:
  assumes "map_of (collections s) cw \<noteq> None" "map_of (collections s) ca \<noteq> None"
    and "wc < length (objects s)" "data (objects s ! wc) = Some (CurveData i)" "i < length (curves s)"
    and "ac < length (objects s)" "data (objects s ! ac) = Some (CurveData j)" "j < length (curves s)"
  shows "fst (build_scene_cameras (DataCollection cw) (DataCollection ca) wc ac s) = Inr ()"
    and "curves (snd (build_scene_cameras (DataCollection cw) (DataCollection ca) wc ac s)) =
           (curves s)[i := (curves s ! i)\<lparr>path_duration := 600\<rparr>,
                      j := ((curves s)[i := (curves s ! i)\<lparr>path_duration := 600\<rparr>] ! j)\<lparr>path_duration := 450\<rparr>]"
    and "scn (snd (build_scene_cameras (DataCollection cw) (DataCollection ca) wc ac s)) =
           (scn s)\<lparr>scene_camera := Some (length (objects s))\<rparr>"
    and "worlds (snd (build_scene_cameras (DataCollection cw) (DataCollection ca) wc ac s)) = worlds s"
    and "timeline_markers (snd (build_scene_cameras (DataCollection cw) (DataCollection ca) wc ac s)) =
           timeline_markers s"
  using assms
  by (auto simp add: build_scene_cameras_def bnd_eval add_camera_in update_conv'
      follow_path_def constraints_new_def update_constraint_def constraint_name_def
      curve_of_def update_curve_def set_active_camera_def nth_app upd_app nth_append)

lemma bsmk_run:
  "fst (build_scene_markers s) = Inr ()"
  "scn (snd (build_scene_markers s)) = scn s"
  "worlds (snd (build_scene_markers s)) = worlds s"
  "curves (snd (build_scene_markers s)) = curves s"
  "timeline_markers (snd (build_scene_markers s)) =
     timeline_markers s @ [\<lparr>marker_name = ''Walkthrough'', frame = 0\<rparr>,
                           \<lparr>marker_name = ''Aerial Spin'', frame = 0\<rparr>]"
  by (simp_all add: build_scene_markers_def bnd_eval marker_add_def update_last_marker_def butlast_append)


lemma build_scene_run:
  "fst (build_scene s) = Inr ()"
  "curves (snd (build_scene s)) =
     curves s @ [(path_curve ''Walkthrough_Path'' walk_pts)\<lparr>path_duration := 600\<rparr>,
                 (path_curve ''Aerial_Spin_Path'' aero_pts)\<lparr>use_cyclic_u := True, path_duration := 450\<rparr>]"
  "map_of (worlds (snd (build_scene s))) ''World'' = Some \<lparr>use_nodes = True, node_tree = Some sky_tree\<rparr>"
  "scn (snd (build_scene s)) = (scn (snd (build_scene_render s)))
      \<lparr>scene_world := Some ''World'', scene_camera := Some (Suc (Suc (length (objects s))))\<rparr>"
  by (simp_all add: build_scene_def bnd_eval build_scene_render_def bsc_fst bsc_frame bsc_has
      bsm_fst bsm_frame build_scene_world_run bsp_run bscam_run bsmk_run print_def
      update_conv' nth_app upd_app)





subsection \<open>Paths\<close>

lemma split_slash_ne [simp]: "split_slash p \<noteq> []"
  by (induction p) (auto split: list.splits)

lemma split_slash_append:
  "split_slash (xs @ CHR ''/'' # ys) = split_slash xs @ split_slash ys"
  by (induction xs) (auto split: list.splits)

lemma resolve_append: "resolve (xs @ CHR ''/'' # ys) = resolve xs @ resolve ys"
  by (simp add: resolve_def split_slash_append)

lemma resolve_Nil [simp]: "resolve [] = []"
  by (simp add: resolve_def)

lemma resolve_join:
  assumes "b = [] \<or> hd b \<noteq> CHR ''/''"
  shows "resolve (join a b) = resolve a @ resolve b"
proof (cases "a = []")
  case True
  with assms show ?thesis by (auto simp: join_def)
next
  case False
  show ?thesis
  proof (cases "last a = CHR ''/''")
    case True
    with False obtain a' where a: "a = a' @ [CHR ''/'']"
      by (metis append_butlast_last_id)
    have "resolve (a' @ CHR ''/'' # b) = resolve a' @ resolve b"
      by (rule resolve_append)
    moreover have "resolve (a' @ CHR ''/'' # []) = resolve a'"
      using resolve_append [of a' "[]"] by simp
    ultimately show ?thesis
      using assms a by (auto simp: join_def)
  next
    case False
    with \<open>a \<noteq> []\<close> assms show ?thesis
      by (auto simp: join_def resolve_append)
  qed
qed

lemma basename_append:
  assumes "CHR ''/'' \<notin> set n"
  shows "basename (xs @ n) = basename xs @ n"
proof -
  have "takeWhile (\<lambda>c. c \<noteq> CHR ''/'') (rev n @ rev xs) =
        rev n @ takeWhile (\<lambda>c. c \<noteq> CHR ''/'') (rev xs)"
    using assms by (intro takeWhile_append2) auto
  then show ?thesis
    by (simp add: basename_def)
qed

lemma basename_slash: "a = [] \<or> last a = CHR ''/'' \<Longrightarrow> basename a = []"
  by (cases a rule: rev_cases) (auto simp: basename_def)

lemma basename_join:
  assumes "CHR ''/'' \<notin> set n"
  shows "basename (join a n) = n"
proof -
  from assms have start: "\<not> (n \<noteq> [] \<and> hd n = CHR ''/'')"
    by (cases n) auto
  show ?thesis
  proof (cases "a = [] \<or> last a = CHR ''/''")
    case True
    then have "join a n = a @ n"
      using start by (auto simp: join_def)
    with True assms show ?thesis
      by (simp add: basename_append basename_slash)
  next
    case False
    then have j: "join a n = (a @ ''/'') @ n"
      using start by (auto simp: join_def)
    have "basename (a @ ''/'') = []"
      by (rule basename_slash) simp
    with basename_append [OF assms, of "a @ ''/''"] show ?thesis
      by (simp only: j) simp
  qed
qed

subsection \<open>Files and the export\<close>

lemma butlast_prefixes_snoc: "butlast (prefixes (q @ [x])) = prefixes q"
  by simp

lemma proper_prefixes: "set (butlast (prefixes q)) = {x. strict_prefix x q}"
proof (cases q rule: rev_cases)
  case Nil
  then show ?thesis by simp
next
  case (snoc ys y)
  then show ?thesis
    by (auto simp: strict_prefix_def prefix_snoc)
qed

lemma file_above_iff: "file_above s q = (\<exists>r. strict_prefix r q \<and> files s r \<noteq> None)"
  by (auto simp: file_above_def list_ex_iff proper_prefixes)

lemma file_above_snoc: "file_above s (q @ [x]) = (file_above s q \<or> files s q \<noteq> None)"
  by (auto simp: file_above_iff strict_prefix_def prefix_snoc)

lemma file_above_write:
  assumes "length r \<le> length q"
  shows "file_above (s\<lparr>files := f(q \<mapsto> c)\<rparr>) r = file_above (s\<lparr>files := f\<rparr>) r"
proof -
  have "x \<noteq> q" if "strict_prefix x r" for x
    using prefix_length_less [OF that] assms by auto
  then show ?thesis
    by (auto simp: file_above_iff)
qed

lemma file_above_files: "file_above (s\<lparr>files := files s'\<rparr>) r = file_above s' r"
  by (simp add: file_above_iff)

lemma file_above_frame [simp]:
  "file_above (s\<lparr>dirs := d\<rparr>) q = file_above s q"
  "file_above (s\<lparr>objects := ob\<rparr>) q = file_above s q"
  "file_above (s\<lparr>ops := op\<rparr>) q = file_above s q"
  "file_above (s\<lparr>stdout := out\<rparr>) q = file_above s q"
  by (simp_all add: file_above_def)

lemma is_dir_frame [simp]:
  "is_dir (s\<lparr>files := f\<rparr>) q = is_dir s q"
  "is_dir (s\<lparr>objects := ob\<rparr>) q = is_dir s q"
  "is_dir (s\<lparr>ops := op\<rparr>) q = is_dir s q"
  "is_dir (s\<lparr>stdout := out\<rparr>) q = is_dir s q"
  by (simp_all add: is_dir_def)

lemma ensure_dir_present: "is_dir s (resolve p) \<Longrightarrow> ensure_dir p s = (Inr (), s)"
  by (simp add: ensure_dir_def isdir_def)

lemma ensure_dir_create:
  "\<not> is_dir s (resolve p) \<Longrightarrow> \<not> file_above s (resolve p) \<Longrightarrow> files s (resolve p) = None \<Longrightarrow>
   ensure_dir p s = (Inr (), s\<lparr>dirs := dirs s \<union> set (prefixes (resolve p))\<rparr>)"
  by (simp add: ensure_dir_def isdir_def makedirs_def)


lemma write_file_ok:
  "is_dir s (butlast (resolve p)) \<Longrightarrow> \<not> is_dir s (resolve p) \<Longrightarrow> \<not> file_above s (resolve p) \<Longrightarrow>
   write_file p c s = (Inr (), s\<lparr>files := (files s)(resolve p \<mapsto> c)\<rparr>)"
  by (simp add: write_file_def)


lemma export_scene_fbx_ok:
  "is_dir s (butlast (resolve p)) \<Longrightarrow> \<not> is_dir s (resolve p) \<Longrightarrow> \<not> file_above s (resolve p) \<Longrightarrow>
   export_scene_fbx p True s =
     (Inr (), s\<lparr>ops := ops s @ [ExportFbx p True],
               files := (files s)(resolve p \<mapsto> Fbx (filter select (objects s)))\<rparr>)"
  by (simp add: export_scene_fbx_def write_file_def)

lemma write_readme_ok:
  "is_dir s (butlast (resolve p)) \<Longrightarrow> \<not> is_dir s (resolve p) \<Longrightarrow> \<not> file_above s (resolve p) \<Longrightarrow>
   write_readme p s = (Inr (), s\<lparr>files := (files s)(resolve p \<mapsto> Text (readme_title @ readme_files))\<rparr>)"
  by (simp add: write_readme_def write_file_def file_write_def read_file_def)

lemma write_archive_ok:
  "is_dir s (butlast (resolve z)) \<Longrightarrow> \<not> is_dir s (resolve z) \<Longrightarrow> \<not> file_above s (resolve z) \<Longrightarrow>
   files s (resolve f) = Some cf \<Longrightarrow> files s (resolve r) = Some cr \<Longrightarrow>
   resolve f \<noteq> resolve z \<Longrightarrow> resolve r \<noteq> resolve z \<Longrightarrow>
   write_archive z f r s =
     (Inr (), s\<lparr>files := (files s)(resolve z \<mapsto> Zip [(basename f, cf), (basename r, cr)])\<rparr>)"
  by (simp add: write_archive_def write_file_def zip_write_def read_file_def)


lemma seq: "m s = (Inr a, s') \<Longrightarrow> k a s' = r \<Longrightarrow> bnd m k s = r"
  by (simp add: bnd_def)

lemma export_paths:
  "resolve (join d ''exports/'') = resolve d @ [''exports'']"
  "resolve (join (join d ''exports/'') ''Duplex_House.fbx'') = resolve d @ [''exports'', ''Duplex_House.fbx'']"
  "resolve (join (join d ''exports/'') ''Duplex_House_Lite.fbx'') = resolve d @ [''exports'', ''Duplex_House_Lite.fbx'']"
  "resolve (join (join d ''exports/'') ''Duplex_House_FBX.zip'') = resolve d @ [''exports'', ''Duplex_House_FBX.zip'']"
  "resolve (join (join d ''exports/'') ''README_Import.txt'') = resolve d @ [''exports'', ''README_Import.txt'']"
  "basename (join (join d ''exports/'') ''Duplex_House.fbx'') = ''Duplex_House.fbx''"
  "basename (join (join d ''exports/'') ''README_Import.txt'') = ''README_Import.txt''"
  by (simp_all add: resolve_join basename_join) (simp_all add: resolve_def)

lemma export_run:
  assumes E: "E = resolve (blend_dir s) @ [''exports'']"
    and D: "ED = join (blend_dir s) ''exports/''"
    and clear: "\<not> file_above s E" "files s E = None"
    and free: "E @ [''Duplex_House.fbx''] \<notin> dirs s" "E @ [''README_Import.txt''] \<notin> dirs s"
      "E @ [''Duplex_House_FBX.zip''] \<notin> dirs s"
  shows "export_fbx_and_zip s =
    (Inr (),
     s\<lparr>dirs := (if is_dir s E then dirs s else dirs s \<union> set (prefixes E)),
       objects := map (\<lambda>ob. ob\<lparr>select := True\<rparr>) (objects s),
       ops := ops s @ [ExportFbx (join ED ''Duplex_House.fbx'') True],
       files := (files s)
         (E @ [''Duplex_House.fbx''] \<mapsto> Fbx (map (\<lambda>ob. ob\<lparr>select := True\<rparr>) (objects s)),
          E @ [''README_Import.txt''] \<mapsto> Text (readme_title @ readme_files),
          E @ [''Duplex_House_FBX.zip''] \<mapsto>
            Zip [(''Duplex_House.fbx'', Fbx (map (\<lambda>ob. ob\<lparr>select := True\<rparr>) (objects s))),
                 (''README_Import.txt'', Text (readme_title @ readme_files))]),
       stdout := stdout s @ [check_mark @ '' Export complete: '' @ join ED ''Duplex_House_FBX.zip'']\<rparr>)"
proof -
  let ?sel = "map (\<lambda>ob. ob\<lparr>select := True\<rparr>) (objects s)"
  define D1 where "D1 = (if is_dir s E then dirs s else dirs s \<union> set (prefixes E))"
  let ?s1 = "s\<lparr>dirs := D1\<rparr>"
  have rE: "resolve ED = E"
    by (simp add: E D export_paths)
  have dir: "ensure_dir ED s = (Inr (), ?s1)"
    using clear by (cases "is_dir s E") (simp_all add: D1_def rE ensure_dir_present ensure_dir_create)
  have there: "is_dir ?s1 E"
    by (simp add: is_dir_def D1_def)
  have longer: "E @ [x] \<notin> set (prefixes E)" for x
    by simp
  have notdir: "\<not> is_dir ?s1 (E @ [''Duplex_House.fbx''])" "\<not> is_dir ?s1 (E @ [''README_Import.txt''])"
      "\<not> is_dir ?s1 (E @ [''Duplex_House_FBX.zip''])"
    using free longer by (auto simp: is_dir_def D1_def)
  have above: "\<not> file_above ?s1 (E @ [x])" for x
    using clear by (simp add: file_above_snoc)
  let ?s2 = "?s1\<lparr>objects := ?sel\<rparr>"
  let ?s3 = "?s2\<lparr>ops := ops s @ [ExportFbx (join ED ''Duplex_House.fbx'') True],
               files := (files s)(E @ [''Duplex_House.fbx''] \<mapsto> Fbx ?sel)\<rparr>"
  have fbx: "export_scene_fbx (join ED ''Duplex_House.fbx'') True ?s2 = (Inr (), ?s3)"
    using there notdir above [of "''Duplex_House.fbx''"]
    by (simp add: export_scene_fbx_ok D E export_paths filter_map comp_def is_dir_def butlast_append)
  let ?s4 = "?s3\<lparr>files := (files ?s3)(E @ [''README_Import.txt''] \<mapsto> Text (readme_title @ readme_files))\<rparr>"
  have readme: "write_readme (join ED ''README_Import.txt'') ?s3 = (Inr (), ?s4)"
    using there notdir above [of "''README_Import.txt''"] clear
    by (simp add: write_readme_ok D E export_paths file_above_write file_above_files is_dir_def butlast_append)
  let ?s5 = "?s4\<lparr>files := (files ?s4)(E @ [''Duplex_House_FBX.zip''] \<mapsto>
      Zip [(''Duplex_House.fbx'', Fbx ?sel), (''README_Import.txt'', Text (readme_title @ readme_files))])\<rparr>"
  have archive: "write_archive (join ED ''Duplex_House_FBX.zip'') (join ED ''Duplex_House.fbx'')
      (join ED ''README_Import.txt'') ?s4 = (Inr (), ?s5)"
    using there notdir above [of "''Duplex_House_FBX.zip''"] clear
    by (subst write_archive_ok [where cf = "Fbx ?sel" and cr = "Text (readme_title @ readme_files)"])
       (simp_all add: D E export_paths file_above_write file_above_files is_dir_def butlast_append)
  have sel: "select_all ''SELECT'' ?s1 = (Inr (), ?s2)"
    by (simp add: select_all_def)
  have "export_fbx_and_zip s =
      bnd (ensure_dir ED) (\<lambda>_.
      bnd (select_all ''SELECT'') (\<lambda>_.
      bnd (export_scene_fbx (join ED ''Duplex_House.fbx'') True) (\<lambda>_.
      bnd (write_readme (join ED ''README_Import.txt'')) (\<lambda>_.
      bnd (write_archive (join ED ''Duplex_House_FBX.zip'') (join ED ''Duplex_House.fbx'')
             (join ED ''README_Import.txt'')) (\<lambda>_.
      print (check_mark @ '' Export complete: '' @ join ED ''Duplex_House_FBX.zip'')))))) s"
    by (simp add: export_fbx_and_zip_def abspath_def D)
  also have "\<dots> =
      (Inr (), ?s5\<lparr>stdout := stdout s @ [check_mark @ '' Export complete: '' @ join ED ''Duplex_House_FBX.zip'']\<rparr>)"
    apply (rule seq [where m = "ensure_dir ED", OF dir])
    apply (rule seq [where m = "select_all ''SELECT''", OF sel])
    apply (rule seq [where m = "export_scene_fbx (join ED ''Duplex_House.fbx'') True", OF fbx])
    apply (rule seq [where m = "write_readme (join ED ''README_Import.txt'')", OF readme])
    apply (rule seq [where m = "write_archive (join ED ''Duplex_House_FBX.zip'') (join ED ''Duplex_House.fbx'')
             (join ED ''README_Import.txt'')", OF archive])
    apply (simp add: print_def)
    done
  finally show ?thesis
    by (simp add: D1_def)
qed

lemma keeps_bnd:
  assumes "\<And>s. f (snd (m s)) = f s" "\<And>a s. f (snd (k a s)) = f s"
  shows "f (snd (bnd m k s)) = f s"
  using assms by (simp add: bnd_eval split: sum.splits)

lemma write_file_keeps:
  "q \<noteq> resolve p \<Longrightarrow> files (snd (write_file p c s)) q = files s q"
  "ops (snd (write_file p c s)) = ops s"
  by (simp_all add: write_file_def)

lemma read_file_keeps [simp]: "snd (read_file p s) = s"
  by (simp add: read_file_def split: option.splits)

lemma file_write_keeps:
  "q \<noteq> resolve p \<Longrightarrow> files (snd (file_write p t s)) q = files s q"
  "ops (snd (file_write p t s)) = ops s"
  by (simp_all add: file_write_def read_file_def split: option.splits content.splits)

lemma zip_write_keeps:
  "q \<noteq> resolve p \<Longrightarrow> files (snd (zip_write p src a s)) q = files s q"
  "ops (snd (zip_write p src a s)) = ops s"
  by (simp_all add: zip_write_def read_file_def split: option.splits content.splits)

lemma ensure_dir_keeps:
  "files (snd (ensure_dir p s)) = files s"
  "ops (snd (ensure_dir p s)) = ops s"
  by (simp_all add: ensure_dir_def isdir_def makedirs_def)

lemma select_all_keeps:
  "files (snd (select_all a s)) = files s"
  "ops (snd (select_all a s)) = ops s"
  by (simp_all add: select_all_def)

lemma export_scene_fbx_keeps:
  "q \<noteq> resolve p \<Longrightarrow> files (snd (export_scene_fbx p u s)) q = files s q"
  "ops (snd (export_scene_fbx p u s)) = ops s @ [ExportFbx p u]"
  by (simp_all add: export_scene_fbx_def write_file_def)

lemma write_readme_keeps:
  "q \<noteq> resolve p \<Longrightarrow> files (snd (write_readme p s)) q = files s q"
  "ops (snd (write_readme p s)) = ops s"
  unfolding write_readme_def
  by (intro keeps_bnd [where f = "\<lambda>s. files s q"] keeps_bnd [where f = ops]
      write_file_keeps file_write_keeps; assumption)+

lemma write_archive_keeps:
  "q \<noteq> resolve z \<Longrightarrow> files (snd (write_archive z f r s)) q = files s q"
  "ops (snd (write_archive z f r s)) = ops s"
  unfolding write_archive_def
  by (intro keeps_bnd [where f = "\<lambda>s. files s q"] keeps_bnd [where f = ops]
      write_file_keeps zip_write_keeps; assumption)+

lemma print_keeps:
  "files (snd (print l s)) = files s"
  "ops (snd (print l s)) = ops s"
  by (simp_all add: print_def)


lemma export_unfold:
  "export_fbx_and_zip s =
      bnd (ensure_dir (join (blend_dir s) ''exports/'')) (\<lambda>_.
      bnd (select_all ''SELECT'') (\<lambda>_.
      bnd (export_scene_fbx (join (join (blend_dir s) ''exports/'') ''Duplex_House.fbx'') True) (\<lambda>_.
      bnd (write_readme (join (join (blend_dir s) ''exports/'') ''README_Import.txt'')) (\<lambda>_.
      bnd (write_archive (join (join (blend_dir s) ''exports/'') ''Duplex_House_FBX.zip'')
             (join (join (blend_dir s) ''exports/'') ''Duplex_House.fbx'')
             (join (join (blend_dir s) ''exports/'') ''README_Import.txt'')) (\<lambda>_.
      print (check_mark @ '' Export complete: '' @
             join (join (blend_dir s) ''exports/'') ''Duplex_House_FBX.zip'')))))) s"
  by (simp add: export_fbx_and_zip_def abspath_def)

lemma export_never_lite:
  "files (snd (export_fbx_and_zip s)) (resolve (blend_dir s) @ [''exports'', ''Duplex_House_Lite.fbx'']) =
   files s (resolve (blend_dir s) @ [''exports'', ''Duplex_House_Lite.fbx''])"
  unfolding export_unfold
  by (intro keeps_bnd [where f = "\<lambda>s'. files s' (resolve (blend_dir s) @ [''exports'', ''Duplex_House_Lite.fbx''])"]
      export_scene_fbx_keeps write_readme_keeps write_archive_keeps)
     (simp_all add: ensure_dir_keeps select_all_keeps print_keeps export_paths)

lemma export_at_most_once:
  "ops (snd (export_fbx_and_zip s)) = ops s \<or>
   ops (snd (export_fbx_and_zip s)) =
     ops s @ [ExportFbx (join (join (blend_dir s) ''exports/'') ''Duplex_House.fbx'') True]"
proof -
  have rest: "ops (snd (bnd (write_readme r) (\<lambda>_. bnd (write_archive z f r') (\<lambda>_. print msg)) s')) = ops s'"
    for r z f r' msg s'
    by (intro keeps_bnd [where f = ops] write_readme_keeps write_archive_keeps print_keeps)
  have tail: "ops (snd (bnd (export_scene_fbx p True)
        (\<lambda>_. bnd (write_readme r) (\<lambda>_. bnd (write_archive z f r') (\<lambda>_. print msg))) s')) =
      ops s' @ [ExportFbx p True]" for p r z f r' msg s'
    by (simp add: bnd_eval [of "export_scene_fbx p True"] rest export_scene_fbx_keeps split: sum.splits)
  show ?thesis
    unfolding export_unfold
    by (simp add: bnd_eval [of "ensure_dir _"] bnd_eval [of "select_all _"] tail
        ensure_dir_keeps select_all_keeps split: sum.splits)
qed


lemma host0_paths:
  "resolve ''/home/user/duplex'' = [''home'', ''user'', ''duplex'']"
  "resolve ''/home/user/duplex/exports/'' = [''home'', ''user'', ''duplex'', ''exports'']"
  by (simp_all add: resolve_def)

lemma readme_names_lite: "sublist ''Duplex_House_Lite.fbx'' (readme_title @ readme_files)"
proof -
  have "readme_title @ readme_files =
      (readme_title @ ''Files:'' @ newline @ ''- Duplex_House.fbx (FULL)'' @ newline @ ''- '') @
      ''Duplex_House_Lite.fbx'' @ ('' (LITE)'' @ newline)"
    by (simp add: readme_files_def)
  then show ?thesis
    by (simp only: sublist_appendI)
qed

text \<open>
  C3. \<^verbatim>\<open>export_fbx_and_zip\<close> never creates the Lite export. The path it computes for
  it is the file \<^verbatim>\<open>Duplex_House_Lite.fbx\<close> of the export directory, and whatever the run
  does, and however it ends, that file is as it was before. The run calls the exporter at
  most once, for the full file. The text written to the README names
  \<^verbatim>\<open>Duplex_House_Lite.fbx\<close>. When no regular file lies on the way to the export
  directory and none of the three output paths is a directory, the run returns, has called
  the exporter exactly once, and the archive holds exactly two entries:
  \<^verbatim>\<open>Duplex_House.fbx\<close> with the exported file, and \<^verbatim>\<open>README_Import.txt\<close> with that text.
\<close>

theorem export_has_no_lite:
  "resolve (join (join (blend_dir s) ''exports/'') ''Duplex_House_Lite.fbx'') =
     resolve (blend_dir s) @ [''exports'', ''Duplex_House_Lite.fbx''] \<and>
   files (snd (export_fbx_and_zip s)) (resolve (blend_dir s) @ [''exports'', ''Duplex_House_Lite.fbx'']) =
     files s (resolve (blend_dir s) @ [''exports'', ''Duplex_House_Lite.fbx'']) \<and>
   (ops (snd (export_fbx_and_zip s)) = ops s \<or>
    ops (snd (export_fbx_and_zip s)) =
      ops s @ [ExportFbx (join (join (blend_dir s) ''exports/'') ''Duplex_House.fbx'') True]) \<and>
   sublist ''Duplex_House_Lite.fbx'' (readme_title @ readme_files) \<and>
   (\<not> file_above s (resolve (blend_dir s) @ [''exports'']) \<and>
    files s (resolve (blend_dir s) @ [''exports'']) = None \<and>
    resolve (blend_dir s) @ [''exports'', ''Duplex_House.fbx''] \<notin> dirs s \<and>
    resolve (blend_dir s) @ [''exports'', ''README_Import.txt''] \<notin> dirs s \<and>
    resolve (blend_dir s) @ [''exports'', ''Duplex_House_FBX.zip''] \<notin> dirs s \<longrightarrow>
    (\<exists>s' scene_file.
       export_fbx_and_zip s = (Inr (), s') \<and>
       ops s' = ops s @ [ExportFbx (join (join (blend_dir s) ''exports/'') ''Duplex_House.fbx'') True] \<and>
       files s' (resolve (blend_dir s) @ [''exports'', ''Duplex_House.fbx'']) = Some scene_file \<and>
       files s' (resolve (blend_dir s) @ [''exports'', ''README_Import.txt'']) =
         Some (Text (readme_title @ readme_files)) \<and>
       files s' (resolve (blend_dir s) @ [''exports'', ''Duplex_House_FBX.zip'']) =
         Some (Zip [(''Duplex_House.fbx'', scene_file),
                    (''README_Import.txt'', Text (readme_title @ readme_files))])))"
proof (intro conjI impI)
  show "resolve (join (join (blend_dir s) ''exports/'') ''Duplex_House_Lite.fbx'') =
     resolve (blend_dir s) @ [''exports'', ''Duplex_House_Lite.fbx'']"
    by (rule export_paths)
  show "files (snd (export_fbx_and_zip s)) (resolve (blend_dir s) @ [''exports'', ''Duplex_House_Lite.fbx'']) =
     files s (resolve (blend_dir s) @ [''exports'', ''Duplex_House_Lite.fbx''])"
    by (rule export_never_lite)
  show "ops (snd (export_fbx_and_zip s)) = ops s \<or>
    ops (snd (export_fbx_and_zip s)) =
      ops s @ [ExportFbx (join (join (blend_dir s) ''exports/'') ''Duplex_House.fbx'') True]"
    by (rule export_at_most_once)
  show "sublist ''Duplex_House_Lite.fbx'' (readme_title @ readme_files)"
    by (rule readme_names_lite)
next
  let ?E = "resolve (blend_dir s) @ [''exports'']"
  assume ready: "\<not> file_above s ?E \<and> files s ?E = None \<and>
    resolve (blend_dir s) @ [''exports'', ''Duplex_House.fbx''] \<notin> dirs s \<and>
    resolve (blend_dir s) @ [''exports'', ''README_Import.txt''] \<notin> dirs s \<and>
    resolve (blend_dir s) @ [''exports'', ''Duplex_House_FBX.zip''] \<notin> dirs s"
  have run: "export_fbx_and_zip s = (Inr (), snd (export_fbx_and_zip s))"
    and state: "snd (export_fbx_and_zip s) =
     s\<lparr>dirs := (if is_dir s ?E then dirs s else dirs s \<union> set (prefixes ?E)),
       objects := map (\<lambda>ob. ob\<lparr>select := True\<rparr>) (objects s),
       ops := ops s @ [ExportFbx (join (join (blend_dir s) ''exports/'') ''Duplex_House.fbx'') True],
       files := (files s)
         (?E @ [''Duplex_House.fbx''] \<mapsto> Fbx (map (\<lambda>ob. ob\<lparr>select := True\<rparr>) (objects s)),
          ?E @ [''README_Import.txt''] \<mapsto> Text (readme_title @ readme_files),
          ?E @ [''Duplex_House_FBX.zip''] \<mapsto>
            Zip [(''Duplex_House.fbx'', Fbx (map (\<lambda>ob. ob\<lparr>select := True\<rparr>) (objects s))),
                 (''README_Import.txt'', Text (readme_title @ readme_files))]),
       stdout := stdout s @ [check_mark @ '' Export complete: '' @
                   join (join (blend_dir s) ''exports/'') ''Duplex_House_FBX.zip'']\<rparr>"
    using export_run [OF refl refl, of s] ready by simp_all
  show "\<exists>s' scene_file.
       export_fbx_and_zip s = (Inr (), s') \<and>
       ops s' = ops s @ [ExportFbx (join (join (blend_dir s) ''exports/'') ''Duplex_House.fbx'') True] \<and>
       files s' (resolve (blend_dir s) @ [''exports'', ''Duplex_House.fbx'']) = Some scene_file \<and>
       files s' (resolve (blend_dir s) @ [''exports'', ''README_Import.txt'']) =
         Some (Text (readme_title @ readme_files)) \<and>
       files s' (resolve (blend_dir s) @ [''exports'', ''Duplex_House_FBX.zip'']) =
         Some (Zip [(''Duplex_House.fbx'', scene_file),
                    (''README_Import.txt'', Text (readme_title @ readme_files))])"
    apply (rule exI [of _ "snd (export_fbx_and_zip s)"])
    apply (rule exI [of _ "Fbx (map (\<lambda>ob. ob\<lparr>select := True\<rparr>) (objects s))"])
    apply (intro conjI)
        apply (rule run)
       apply (simp_all add: state)
    done
qed


lemma host0_ready:
  "blend_dir host0 = ''/home/user/duplex''"
  "\<not> file_above host0 q"
  "files host0 q = None"
  "[''home'', ''user'', ''duplex'', ''exports'', x] \<notin> dirs host0"
  "ops host0 = []"
  by (simp_all add: host0_def file_above_iff)

theorem export_has_no_lite_witness:
  "\<exists>s' scene_file.
     export_fbx_and_zip host0 = (Inr (), s') \<and>
     ops s' = [ExportFbx ''/home/user/duplex/exports/Duplex_House.fbx'' True] \<and>
     files s' [''home'', ''user'', ''duplex'', ''exports'', ''Duplex_House_FBX.zip''] =
       Some (Zip [(''Duplex_House.fbx'', scene_file),
                  (''README_Import.txt'', Text (readme_title @ readme_files))]) \<and>
     files (snd (export_fbx_and_zip host0))
       [''home'', ''user'', ''duplex'', ''exports'', ''Duplex_House_Lite.fbx''] = None"
proof -
  have full: "join (join ''/home/user/duplex'' ''exports/'') ''Duplex_House.fbx'' =
      ''/home/user/duplex/exports/Duplex_House.fbx''"
    by (simp add: join_def)
  from export_has_no_lite [of host0] show ?thesis
    by (simp add: host0_ready host0_paths full) blast
qed





subsection \<open>The last block\<close>

lemma bsc_disk:
  "blend_dir (snd (build_scene_collections s)) = blend_dir s"
  "dirs (snd (build_scene_collections s)) = dirs s"
  "files (snd (build_scene_collections s)) = files s"
  by (simp_all add: build_scene_collections_def bnd_eval ec_root_fst ec_root_frame)

lemma bsm_disk:
  "blend_dir (snd (build_scene_materials s)) = blend_dir s"
  "dirs (snd (build_scene_materials s)) = dirs s"
  "files (snd (build_scene_materials s)) = files s"
  by (simp_all add: build_scene_materials_def bnd_eval make_basic_material_run)

lemma bsp_disk:
  assumes "map_of (collections s) cw \<noteq> None" "map_of (collections s) ca \<noteq> None"
  shows "blend_dir (snd (build_scene_paths (DataCollection cw) (DataCollection ca) s)) = blend_dir s"
    and "dirs (snd (build_scene_paths (DataCollection cw) (DataCollection ca) s)) = dirs s"
    and "files (snd (build_scene_paths (DataCollection cw) (DataCollection ca) s)) = files s"
  using assms
  by (auto simp add: build_scene_paths_def bnd_eval add_bezier_path_in pts_ne update_conv'
      curve_of_def update_curve_def nth_app upd_app)

lemma bscam_disk:
  assumes "map_of (collections s) cw \<noteq> None" "map_of (collections s) ca \<noteq> None"
    and "wc < length (objects s)" "data (objects s ! wc) = Some (CurveData i)" "i < length (curves s)"
    and "ac < length (objects s)" "data (objects s ! ac) = Some (CurveData j)" "j < length (curves s)"
  shows "blend_dir (snd (build_scene_cameras (DataCollection cw) (DataCollection ca) wc ac s)) = blend_dir s"
    and "dirs (snd (build_scene_cameras (DataCollection cw) (DataCollection ca) wc ac s)) = dirs s"
    and "files (snd (build_scene_cameras (DataCollection cw) (DataCollection ca) wc ac s)) = files s"
  using assms
  by (auto simp add: build_scene_cameras_def bnd_eval add_camera_in update_conv'
      follow_path_def constraints_new_def update_constraint_def constraint_name_def
      curve_of_def update_curve_def set_active_camera_def nth_app upd_app nth_append)

lemma bsmk_disk:
  "blend_dir (snd (build_scene_markers s)) = blend_dir s"
  "dirs (snd (build_scene_markers s)) = dirs s"
  "files (snd (build_scene_markers s)) = files s"
  by (simp_all add: build_scene_markers_def bnd_eval marker_add_def update_last_marker_def)

lemma build_scene_disk:
  "blend_dir (snd (build_scene s)) = blend_dir s"
  "dirs (snd (build_scene s)) = dirs s"
  "files (snd (build_scene s)) = files s"
  by (simp_all add: build_scene_def bnd_eval build_scene_render_def bsc_fst bsc_frame bsc_has bsc_disk
      bsm_fst bsm_frame bsm_disk build_scene_world_run bsp_run bsp_disk bscam_run bscam_disk
      bsmk_run bsmk_disk print_def update_conv' nth_app upd_app)

lemma file_above_same_files: "files s' = files s \<Longrightarrow> file_above s' q = file_above s q"
  by (simp add: file_above_iff)

text \<open>
  What the last block would do, were it reached: on a clear export directory it returns,
  \<^verbatim>\<open>build_scene\<close> first, then the export, and the archive's first entry is the file
  that the export wrote.
\<close>

lemma main_exports_then_archives:
  assumes "\<not> file_above s (resolve (blend_dir s) @ [''exports''])"
    and "files s (resolve (blend_dir s) @ [''exports'']) = None"
    and "resolve (blend_dir s) @ [''exports'', ''Duplex_House.fbx''] \<notin> dirs s"
    and "resolve (blend_dir s) @ [''exports'', ''README_Import.txt''] \<notin> dirs s"
    and "resolve (blend_dir s) @ [''exports'', ''Duplex_House_FBX.zip''] \<notin> dirs s"
  shows "\<exists>s1 s2 s3 scene_file.
     build_scene s = (Inr (), s1) \<and> export_fbx_and_zip s1 = (Inr (), s2) \<and> main s = (Inr (), s3) \<and>
     scene_file = Fbx (map (\<lambda>ob. ob\<lparr>select := True\<rparr>) (objects s1)) \<and>
     files s3 (resolve (blend_dir s) @ [''exports'', ''Duplex_House.fbx'']) = Some scene_file \<and>
     files s3 (resolve (blend_dir s) @ [''exports'', ''Duplex_House_FBX.zip'']) =
       Some (Zip [(''Duplex_House.fbx'', scene_file),
                  (''README_Import.txt'', Text (readme_title @ readme_files))])"
proof -
  let ?s1 = "snd (build_scene s)"
  let ?E = "resolve (blend_dir s) @ [''exports'']"
  have built: "build_scene s = (Inr (), ?s1)"
    using build_scene_run(1) [of s] by (cases "build_scene s") simp
  note disk = build_scene_disk [of s]
  have ready: "\<not> file_above ?s1 ?E" "files ?s1 ?E = None"
      "?E @ [''Duplex_House.fbx''] \<notin> dirs ?s1" "?E @ [''README_Import.txt''] \<notin> dirs ?s1"
      "?E @ [''Duplex_House_FBX.zip''] \<notin> dirs ?s1"
    using assms by (simp_all add: disk file_above_same_files [OF disk(3)])
  have E1: "?E = resolve (blend_dir ?s1) @ [''exports'']"
    by (simp add: disk)
  note run = export_run [OF E1 refl ready]
  let ?s2 = "snd (export_fbx_and_zip ?s1)"
  have exported: "export_fbx_and_zip ?s1 = (Inr (), ?s2)"
    by (simp add: run)
  have zipped: "files ?s2 (?E @ [''Duplex_House.fbx'']) = Some (Fbx (map (\<lambda>ob. ob\<lparr>select := True\<rparr>) (objects ?s1)))"
      "files ?s2 (?E @ [''Duplex_House_FBX.zip'']) =
        Some (Zip [(''Duplex_House.fbx'', Fbx (map (\<lambda>ob. ob\<lparr>select := True\<rparr>) (objects ?s1))),
                   (''README_Import.txt'', Text (readme_title @ readme_files))])"
    by (simp_all add: run)
  let ?s3 = "?s2\<lparr>stdout := stdout ?s2 @
      [check_mark @ '' Done: scene built and FBX exports zipped. Save your .blend to keep changes.'']\<rparr>"
  have whole: "main s = (Inr (), ?s3)"
    unfolding main_def
    apply (rule seq [where m = build_scene, OF built])
    apply (rule seq [where m = export_fbx_and_zip, OF exported])
    apply (simp add: print_def)
    done
  from built exported whole zipped show ?thesis
    by (intro exI [of _ ?s1] exI [of _ ?s2] exI [of _ ?s3]) simp
qed

subsection \<open>The layout\<close>

lemma layout_fails:
  "check_layout [0] False source_lines = Inl (IndentationError 125 ''unexpected indent'')"
  by (simp add: source_lines_def is_blank_def indent_of_def opens_block_def)

lemma run_script_stops:
  "run_script s = (Inl (IndentationError 125 ''unexpected indent''), s)"
  by (simp add: run_script_def layout_fails)

text \<open>
  C1. The file is not a valid program. Line 123, in the body of \<^verbatim>\<open>build_scene\<close>, is
  indented by 4; line 124 is at column 0, which closes the body; lines 125 and 126 are
  indented by 4 again, with no header before them. The check of the layout passes the
  first 124 lines and fails at line 125 with an unexpected indent. So running the script
  raises that error from every state and leaves the state as it was: no statement has
  run. (\<^verbatim>\<open>build_scene\<close>, had it been entered, would have left another state.)
\<close>

theorem script_is_not_valid:
  "map (\<lambda>(n, l). (n, indent_of l)) (drop 122 source_lines) = [(123, 4), (124, 0), (125, 4), (126, 4)] \<and>
   (\<exists>stack. check_layout [0] False (take 124 source_lines) = Inr stack) \<and>
   check_layout [0] False source_lines = Inl (IndentationError 125 ''unexpected indent'') \<and>
   run_script s = (Inl (IndentationError 125 ''unexpected indent''), s) \<and>
   snd (build_scene s) \<noteq> s"
proof (intro conjI)
  show "map (\<lambda>(n, l). (n, indent_of l)) (drop 122 source_lines) = [(123, 4), (124, 0), (125, 4), (126, 4)]"
    by (simp add: source_lines_def indent_of_def)
  show "\<exists>stack. check_layout [0] False (take 124 source_lines) = Inr stack"
    by (simp add: source_lines_def is_blank_def indent_of_def opens_block_def)
  show "check_layout [0] False source_lines = Inl (IndentationError 125 ''unexpected indent'')"
    by (rule layout_fails)
  show "run_script s = (Inl (IndentationError 125 ''unexpected indent''), s)"
    by (rule run_script_stops)
  have "curves (snd (build_scene s)) \<noteq> curves s"
    by (simp add: build_scene_run(2))
  then show "snd (build_scene s) \<noteq> s"
    by auto
qed

text \<open>
  C2 (the code departs from it). Run from a host with an empty scene and an empty
  project directory, the script stops with the indentation error of line 125; the state
  is the initial one, in which there is neither an exported file nor an archive. The
  last block on its own is in the order that the statement describes
  (\<open>main_exports_then_archives\<close>); it is never reached.
\<close>

theorem script_run_makes_no_archive:
  "run_script host0 = (Inl (IndentationError 125 ''unexpected indent''), host0) \<and>
   files (snd (run_script host0)) (resolve ''/home/user/duplex/exports/Duplex_House.fbx'') = None \<and>
   files (snd (run_script host0)) (resolve ''/home/user/duplex/exports/Duplex_House_FBX.zip'') = None"
  by (simp add: run_script_stops) (simp add: host0_def)

end
